theory Spec2Isabelle
  imports Complex_Main "HOL-Library.Monad_Syntax" "HOL-Library.Log_Nat"
begin

section \<open>JavaScript numbers\<close>

text \<open>
  A JavaScript number is an IEEE-754 double: a finite value, one of the two infinities, or
  NaN. The operators \<open>+\<close>, \<open>-\<close>, \<open>*\<close>, \<open>/\<close> of this section keep the rules by which the
  special values are produced and propagated and compute on finite values with exact real
  arithmetic, without rounding or overflow: they give what the formulas of the library mean.
  The operators of the section on binary64 arithmetic below round and overflow as doubles
  do: they give what the code computes. The sign of zero is not modelled.
\<close>

datatype number = Fin real | PInf | NInf | NaN

fun isNaN :: "number \<Rightarrow> bool" where
  "isNaN NaN = True"
| "isNaN _ = False"

fun isFinite :: "number \<Rightarrow> bool" where
  "isFinite (Fin _) = True"
| "isFinite _ = False"

instantiation number :: "{zero, one, plus, uminus, minus, times, inverse, abs, ord}"
begin

definition zero_number :: number where
  "zero_number = Fin 0"

definition one_number :: number where
  "one_number = Fin 1"

fun plus_number :: "number \<Rightarrow> number \<Rightarrow> number" where
  "plus_number (Fin a) (Fin b) = Fin (a + b)"
| "plus_number NaN _ = NaN"
| "plus_number _ NaN = NaN"
| "plus_number PInf NInf = NaN"
| "plus_number NInf PInf = NaN"
| "plus_number PInf _ = PInf"
| "plus_number _ PInf = PInf"
| "plus_number NInf _ = NInf"
| "plus_number _ NInf = NInf"

fun uminus_number :: "number \<Rightarrow> number" where
  "uminus_number (Fin a) = Fin (- a)"
| "uminus_number PInf = NInf"
| "uminus_number NInf = PInf"
| "uminus_number NaN = NaN"

definition minus_number :: "number \<Rightarrow> number \<Rightarrow> number" where
  "minus_number a b = a + (- b)"

fun times_number :: "number \<Rightarrow> number \<Rightarrow> number" where
  "times_number (Fin a) (Fin b) = Fin (a * b)"
| "times_number NaN _ = NaN"
| "times_number _ NaN = NaN"
| "times_number PInf (Fin b) = (if b = 0 then NaN else if 0 < b then PInf else NInf)"
| "times_number NInf (Fin b) = (if b = 0 then NaN else if 0 < b then NInf else PInf)"
| "times_number (Fin a) PInf = (if a = 0 then NaN else if 0 < a then PInf else NInf)"
| "times_number (Fin a) NInf = (if a = 0 then NaN else if 0 < a then NInf else PInf)"
| "times_number PInf PInf = PInf"
| "times_number NInf NInf = PInf"
| "times_number PInf NInf = NInf"
| "times_number NInf PInf = NInf"

fun divide_number :: "number \<Rightarrow> number \<Rightarrow> number" where
  "divide_number (Fin a) (Fin b) =
     (if b = 0 then (if a = 0 then NaN else if 0 < a then PInf else NInf) else Fin (a / b))"
| "divide_number NaN _ = NaN"
| "divide_number _ NaN = NaN"
| "divide_number (Fin a) PInf = Fin 0"
| "divide_number (Fin a) NInf = Fin 0"
| "divide_number PInf (Fin b) = (if 0 \<le> b then PInf else NInf)"
| "divide_number NInf (Fin b) = (if 0 \<le> b then NInf else PInf)"
| "divide_number _ _ = NaN"

definition inverse_number :: "number \<Rightarrow> number" where
  "inverse_number a = divide (Fin 1) a"

fun abs_number :: "number \<Rightarrow> number" where
  "abs_number (Fin a) = Fin \<bar>a\<bar>"
| "abs_number PInf = PInf"
| "abs_number NInf = PInf"
| "abs_number NaN = NaN"

fun less_number :: "number \<Rightarrow> number \<Rightarrow> bool" where
  "less_number (Fin a) (Fin b) = (a < b)"
| "less_number NaN _ = False"
| "less_number _ NaN = False"
| "less_number NInf NInf = False"
| "less_number NInf _ = True"
| "less_number PInf _ = False"
| "less_number _ PInf = True"
| "less_number _ NInf = False"

fun less_eq_number :: "number \<Rightarrow> number \<Rightarrow> bool" where
  "less_eq_number (Fin a) (Fin b) = (a \<le> b)"
| "less_eq_number NaN _ = False"
| "less_eq_number _ NaN = False"
| "less_eq_number NInf _ = True"
| "less_eq_number _ PInf = True"
| "less_eq_number PInf _ = False"
| "less_eq_number _ NInf = False"

instance ..

end

text \<open>The operator \<open>==\<close> on two numbers: NaN equals nothing, itself included.\<close>

definition number_eq :: "number \<Rightarrow> number \<Rightarrow> bool" where
  "number_eq a b = (\<not> isNaN a \<and> \<not> isNaN b \<and> a = b)"

text \<open>\<open>Math.sqrt\<close>, \<open>Math.cos\<close>, \<open>Math.sin\<close>, \<open>Math.atan2\<close> and \<open>Math.PI\<close>.\<close>

fun Math_sqrt :: "number \<Rightarrow> number" where
  "Math_sqrt (Fin a) = (if a < 0 then NaN else Fin (sqrt a))"
| "Math_sqrt PInf = PInf"
| "Math_sqrt NInf = NaN"
| "Math_sqrt NaN = NaN"

fun Math_cos :: "number \<Rightarrow> number" where
  "Math_cos (Fin a) = Fin (cos a)"
| "Math_cos _ = NaN"

fun Math_sin :: "number \<Rightarrow> number" where
  "Math_sin (Fin a) = Fin (sin a)"
| "Math_sin _ = NaN"

definition Math_PI :: number where
  "Math_PI = Fin pi"

text \<open>
  The angle of the vector \<open>(x, y)\<close> in \<open>(-\<pi>, \<pi>]\<close>; \<open>atan2 0 0\<close> is 0, as
  \<open>Math.atan2(0, 0)\<close> is.
\<close>

definition atan2 :: "real \<Rightarrow> real \<Rightarrow> real" where
  "atan2 y x =
     (if 0 < x then arctan (y / x)
      else if x < 0 then (if 0 \<le> y then arctan (y / x) + pi else arctan (y / x) - pi)
      else if 0 < y then pi / 2
      else if y < 0 then - (pi / 2)
      else 0)"

fun Math_atan2 :: "number \<Rightarrow> number \<Rightarrow> number" where
  "Math_atan2 (Fin y) (Fin x) = Fin (atan2 y x)"
| "Math_atan2 NaN _ = NaN"
| "Math_atan2 _ NaN = NaN"
| "Math_atan2 (Fin y) PInf = Fin 0"
| "Math_atan2 (Fin y) NInf = (if 0 \<le> y then Fin pi else Fin (- pi))"
| "Math_atan2 PInf (Fin x) = Fin (pi / 2)"
| "Math_atan2 NInf (Fin x) = Fin (- (pi / 2))"
| "Math_atan2 PInf PInf = Fin (pi / 4)"
| "Math_atan2 NInf PInf = Fin (- (pi / 4))"
| "Math_atan2 PInf NInf = Fin (3 * pi / 4)"
| "Math_atan2 NInf NInf = Fin (- (3 * pi / 4))"

section \<open>Values, arguments and errors\<close>

text \<open>
  The primitive values that \<open>typeof\<close> tells apart in \<open>TSMT$Point.__assign\<close>. The two
  built-in readings of a string as a number, \<open>parseFloat\<close> and the conversion the
  arithmetic operators apply, are parameters of the model.
\<close>

datatype jsval = VUndefined | VNull | VNumber number | VString string | VBoolean bool

record builtins =
  parseFloat :: "string \<Rightarrow> number"
  StringToNumber :: "string \<Rightarrow> number"

fun ToNumber :: "builtins \<Rightarrow> jsval \<Rightarrow> number" where
  "ToNumber env VUndefined = NaN"
| "ToNumber env VNull = Fin 0"
| "ToNumber env (VNumber n) = n"
| "ToNumber env (VString s) = StringToNumber env s"
| "ToNumber env (VBoolean b) = (if b then Fin 1 else Fin 0)"

text \<open>
  A parameter of declared type \<open>'a\<close> as a call may supply it: left out (undefined), null,
  or a value of the type.
\<close>

datatype 'a arg = Undefined | Null | Val 'a

text \<open>Reading a property of undefined or null throws a TypeError.\<close>

datatype error = TypeError

section \<open>The class TSMT$Point\<close>

text \<open>The private fields \<open>_x\<close>, \<open>_y\<close>, \<open>_invalidated\<close> and \<open>_norm\<close> of an instance.\<close>

record TSMT_Point =
  f_x :: jsval
  f_y :: jsval
  f_invalidated :: bool
  f_norm :: jsval

text \<open>
  \<open>length()\<close> recomputes the norm when the instance is invalidated and returns the cached
  norm; the result is paired with the instance as the call leaves it.
\<close>

definition Point_length :: "builtins \<Rightarrow> TSMT_Point \<Rightarrow> jsval \<times> TSMT_Point" where
  "Point_length env this =
     (let this1 =
        (if f_invalidated this
         then this\<lparr>f_norm := VNumber (Math_sqrt (ToNumber env (f_x this) * ToNumber env (f_x this)
                                              + ToNumber env (f_y this) * ToNumber env (f_y this))),
                   f_invalidated := False\<rparr>
         else this)
      in (f_norm this1, this1))"

text \<open>The constructor: a parameter left out defaults to 0.\<close>

definition Point_new :: "builtins \<Rightarrow> jsval \<Rightarrow> jsval \<Rightarrow> TSMT_Point" where
  "Point_new env x0 y0 =
     (let x = (if x0 = VUndefined then VNumber (Fin 0) else x0);
          y = (if y0 = VUndefined then VNumber (Fin 0) else y0);
          this = \<lparr>f_x = x, f_y = y, f_invalidated = True, f_norm = VUndefined\<rparr>;
          (n, this1) = Point_length env this
      in this1\<lparr>f_norm := n\<rparr>)"

definition Point_get_x :: "TSMT_Point \<Rightarrow> jsval" where
  "Point_get_x this = f_x this"

definition Point_get_y :: "TSMT_Point \<Rightarrow> jsval" where
  "Point_get_y this = f_y this"

text \<open>\<open>__assign\<close>: the switch on \<open>typeof value\<close>, and the value itself in every other case.\<close>

fun Point_assign :: "builtins \<Rightarrow> jsval \<Rightarrow> jsval" where
  "Point_assign env (VNumber v) = VNumber (if \<not> isNaN v \<and> isFinite v then v else Fin 0)"
| "Point_assign env (VString s) =
     (let t = parseFloat env s in VNumber (if \<not> isNaN t then t else Fin 0))"
| "Point_assign env (VBoolean b) = VNumber (if b then Fin 0 else Fin 1)"
| "Point_assign env v = v"

definition Point_set_x :: "builtins \<Rightarrow> TSMT_Point \<Rightarrow> jsval \<Rightarrow> TSMT_Point" where
  "Point_set_x env this v = this\<lparr>f_x := Point_assign env v, f_invalidated := True\<rparr>"

definition Point_set_y :: "builtins \<Rightarrow> TSMT_Point \<Rightarrow> jsval \<Rightarrow> TSMT_Point" where
  "Point_set_y env this v = this\<lparr>f_y := Point_assign env v, f_invalidated := True\<rparr>"

section \<open>TSMT$ApproxEqual\<close>

text \<open>
  \<open>compare(a, b, tol)\<close> on parameters declared as numbers; \<open>tol\<close> left out is 0.001.
  \<open>a == null\<close> holds of undefined and of null.
\<close>

definition compare :: "number arg \<Rightarrow> number arg \<Rightarrow> number option \<Rightarrow> bool" where
  "compare a b tol0 =
     (let tol = (case tol0 of None \<Rightarrow> Fin 0.001 | Some t \<Rightarrow> t) in
      case (a, b) of
        (Val a', Val b') \<Rightarrow>
          if isNaN a' \<or> isNaN b' then False
          else if number_eq a' b' then True
          else if \<bar>a'\<bar> < \<bar>b'\<bar> then \<bar>(a' - b') / b'\<bar> \<le> tol
          else \<bar>(a' - b') / a'\<bar> \<le> tol
      | _ \<Rightarrow> False)"

section \<open>TSMT$PointUtils\<close>

text \<open>
  The interface type \<open>Point = {x: number, y: number}\<close> of the utilities: what a call
  reads of an argument object. \<open>X p\<close> is \<open>p.x\<close> and \<open>Y p\<close> is \<open>p.y\<close>.
\<close>

record Point =
  X :: number
  Y :: number

definition l2Norm :: "Point arg \<Rightarrow> Point arg \<Rightarrow> number" where
  "l2Norm p0 p1 =
     (case (p0, p1) of
        (Val q0, Val q1) \<Rightarrow>
          (let dx = X q0 - X q1;
               dy = Y q0 - Y q1
           in Math_sqrt ((dx * dx) + (dy * dy)))
      | _ \<Rightarrow> Fin 0)"

definition angle :: "Point \<Rightarrow> Point \<Rightarrow> bool option \<Rightarrow> number" where
  "angle p0 p1 toDegree0 =
     (let toDegree = (case toDegree0 of None \<Rightarrow> True | Some t \<Rightarrow> t);
          v = Math_atan2 (Y p1 - Y p0) (X p1 - X p0)
      in if toDegree then Fin 180 * v / Math_PI else v)"

definition ratio :: "Point \<Rightarrow> Point \<Rightarrow> Point \<Rightarrow> number" where
  "ratio p0 p1 p2 =
     (let l1 = l2Norm (Val p0) (Val p1);
          l2 = l2Norm (Val p0) (Val p2)
      in l2 / l1)"

definition isParallel :: "Point \<Rightarrow> Point \<Rightarrow> Point \<Rightarrow> Point \<Rightarrow> bool" where
  "isParallel p0 p1 p2 p3 =
     (let a1 = angle p0 p1 None;
          a2 = angle p2 p3 None
      in compare (Val a1) (Val a2) (Some (Fin 0.0001)))"

definition pointOnLine :: "Point \<Rightarrow> Point \<Rightarrow> Point \<Rightarrow> bool" where
  "pointOnLine p0 p1 p =
     (let tx0 = Fin (- 1);
          ty0 = Fin (- 2);
          dx0 = X p - X p0;
          dy0 = Y p - Y p0;
          tx1 = (if \<bar>dx0\<bar> < Fin 0.00000001 \<and> \<bar>dy0\<bar> < Fin 0.00000001 then Fin 0 else tx0);
          dx1 = X p1 - X p;
          dy1 = Y p1 - Y p;
          ty1 = (if \<bar>dx1\<bar> < Fin 0.00000001 \<and> \<bar>dy1\<bar> < Fin 0.00000001 then Fin 1 else ty0)
      in if number_eq tx1 (Fin 0) \<or> number_eq ty1 (Fin 1) then True
         else
           (let dx = X p1 - X p0;
                dy = Y p1 - Y p0
            in if \<bar>dx\<bar> < Fin 0.00000001 then
                 (if \<bar>dy\<bar> < Fin 0.00000001 then False
                  else (let ty = dy0 / (Y p1 - Y p0) in Fin 0 \<le> ty \<and> ty \<le> Fin 1))
               else
                 (let tx = dx0 / (X p1 - X p0)
                  in if \<bar>dy\<bar> < Fin 0.00000001 then Fin 0 \<le> tx \<and> tx \<le> Fin 1
                     else
                       (let ty = dy0 / (Y p1 - Y p0)
                        in if Fin 0 \<le> tx \<and> tx \<le> Fin 1 \<and> Fin 0 \<le> ty \<and> ty \<le> Fin 1
                           then compare (Val tx) (Val ty) (Some (Fin 0.001))
                           else False))))"

definition isLeft :: "Point \<Rightarrow> Point \<Rightarrow> Point \<Rightarrow> bool" where
  "isLeft p0 p1 p2 =
     (let amt = (X p1 - X p0) * (Y p2 - Y p0) - (X p2 - X p0) * (Y p1 - Y p0)
      in Fin 0 < amt)"

text \<open>
  \<open>project\<close> and \<open>pointSegmentProjection\<close> return \<open>new TSMT$Point(a, b)\<close>: the model
  gives the new instance as the interface sees it, with \<open>x = a\<close> and \<open>y = b\<close>.
\<close>

definition project :: "Point \<Rightarrow> Point \<Rightarrow> number \<Rightarrow> Point" where
  "project p0 p1 d =
     (let a = angle p0 p1 None
      in \<lparr>X = X p0 + Math_cos a * d, Y = Y p0 + Math_sin a * d\<rparr>)"

function bottomLeft_loop :: "Point list \<Rightarrow> nat \<Rightarrow> nat \<Rightarrow> nat \<Rightarrow> nat" where
  "bottomLeft_loop points len i index =
     (if i < len then
        bottomLeft_loop points len (i + 1)
          (if Y (points ! i) < Y (points ! index)
              \<or> (Y (points ! i) \<le> Y (points ! index) \<and> X (points ! i) < X (points ! index))
           then i else index)
      else index)"
  by pat_completeness auto
termination
  by (relation "measure (\<lambda>(points, len, i, index). len - i)") auto

definition bottomLeft :: "Point list \<Rightarrow> nat" where
  "bottomLeft points = bottomLeft_loop points (length points) 0 0"

function bottomRight_loop :: "Point list \<Rightarrow> nat \<Rightarrow> nat \<Rightarrow> nat \<Rightarrow> nat" where
  "bottomRight_loop points len i index =
     (if i < len then
        bottomRight_loop points len (i + 1)
          (if Y (points ! i) < Y (points ! index)
              \<or> (Y (points ! i) \<le> Y (points ! index) \<and> X (points ! index) < X (points ! i))
           then i else index)
      else index)"
  by pat_completeness auto
termination
  by (relation "measure (\<lambda>(points, len, i, index). len - i)") auto

definition bottomRight :: "Point list \<Rightarrow> nat" where
  "bottomRight points = bottomRight_loop points (length points) 0 0"

text \<open>
  Property reads as \<open>closestPointToLine\<close> makes them. \<open>points[i]\<close> is undefined outside
  the array. A Point object has the properties x and y (a TSMT$Point instance also its
  private fields and its methods) and none with a numeric key, so \<open>p[i]\<close> on a Point is
  undefined; on undefined or null it throws. Reading \<open>.x\<close> or \<open>.y\<close> of undefined or null
  throws.
\<close>

definition elem :: "Point list \<Rightarrow> nat \<Rightarrow> Point arg" where
  "elem points i = (if i < length points then Val (points ! i) else Undefined)"

fun index_prop :: "Point arg \<Rightarrow> nat \<Rightarrow> error + Point arg" where
  "index_prop (Val p) i = Inr Undefined"
| "index_prop _ i = Inl TypeError"

fun prop_x :: "Point arg \<Rightarrow> error + number" where
  "prop_x (Val p) = Inr (X p)"
| "prop_x _ = Inl TypeError"

fun prop_y :: "Point arg \<Rightarrow> error + number" where
  "prop_y (Val p) = Inr (Y p)"
| "prop_y _ = Inl TypeError"

function closestPointToLine_loop ::
  "Point list \<Rightarrow> number \<Rightarrow> number \<Rightarrow> number \<Rightarrow> nat \<Rightarrow> nat \<Rightarrow> nat \<Rightarrow> number \<Rightarrow> error + nat" where
  "closestPointToLine_loop points a b c len i minIndex min0 =
     (if i < len then
        (case index_prop (elem points i) i of
           Inl e \<Rightarrow> Inl e
         | Inr q \<Rightarrow>
             (case prop_x q of
                Inl e \<Rightarrow> Inl e
              | Inr qx \<Rightarrow>
                  (case index_prop (elem points i) i of
                     Inl e \<Rightarrow> Inl e
                   | Inr q' \<Rightarrow>
                       (case prop_y q' of
                          Inl e \<Rightarrow> Inl e
                        | Inr qy \<Rightarrow>
                            (if \<bar>a * qx + b * qy + c\<bar> < min0
                             then closestPointToLine_loop points a b c len (i + 1) i
                                    \<bar>a * qx + b * qy + c\<bar>
                             else closestPointToLine_loop points a b c len (i + 1) minIndex min0)))))
      else Inr minIndex)"
  by pat_completeness auto
termination
  by (relation "measure (\<lambda>(points, a, b, c, len, i, minIndex, min0). len - i)") auto

definition closestPointToLine :: "Point list \<Rightarrow> Point \<Rightarrow> Point \<Rightarrow> error + nat" where
  "closestPointToLine points p0 p1 =
     (let a = Y p0 - Y p1;
          b = X p1 - X p0;
          c = X p0 * Y p1 - X p1 * Y p0;
          len = length points
      in case prop_x (elem points 0) of
           Inl e \<Rightarrow> Inl e
         | Inr x0 \<Rightarrow>
             (case prop_y (elem points 0) of
                Inl e \<Rightarrow> Inl e
              | Inr y0 \<Rightarrow>
                  closestPointToLine_loop points a b c len 1 0 \<bar>a * x0 + b * y0 + c\<bar>))"

definition pointToLineDistancee :: "Point \<Rightarrow> Point \<Rightarrow> Point \<Rightarrow> number" where
  "pointToLineDistancee p0 p1 p =
     (let vx = X p1 - X p0;
          vy = Y p1 - Y p0;
          wx = X p - X p0;
          wy = Y p - Y p0;
          c1 = vx * wx + vy * wy;
          c2 = vx * vx + vy * vy;
          b = c1 / c2;
          px = X p0 + b * vx;
          py = Y p0 + b * vy;
          dx = X p - px;
          dy = Y p - py
      in Math_sqrt (dx * dx + dy * dy))"

definition pointToSegmentDistance :: "Point \<Rightarrow> Point \<Rightarrow> Point \<Rightarrow> number" where
  "pointToSegmentDistance p0 p1 p =
     (let vx = X p1 - X p0;
          vy = Y p1 - Y p0;
          wx = X p - X p0;
          wy = Y p - Y p0;
          c1 = wx * vx + wy * vy
      in if c1 \<le> Fin 0 then Math_sqrt (wx * wx + wy * wy)
         else
           (let c2 = vx * vx + vy * vy
            in if c2 \<le> c1 then
                 (let wx' = X p1 - X p;
                      wy' = Y p1 - Y p
                  in Math_sqrt (wx' * wx' + wy' * wy'))
               else
                 (let b = c1 / c2;
                      px = X p0 + b * vx;
                      py = Y p0 + b * vy;
                      dx = X p - px;
                      dy = Y p - py
                  in Math_sqrt (dx * dx + dy * dy))))"

definition pointSegmentProjection :: "Point \<Rightarrow> Point \<Rightarrow> Point \<Rightarrow> Point" where
  "pointSegmentProjection p0 p1 p =
     (let p0x = X p0;
          p0y = Y p0;
          p1x = X p1;
          p1y = Y p1;
          px = X p;
          py = Y p;
          dx = p1x - p0x;
          dy = p1y - p0y;
          d = dx * dx + dy * dy
      in if d < Fin 0.0000001 then \<lparr>X = p0x, Y = p0y\<rparr>
         else
           (let t = ((px - p0x) * (p1x - p0x) + (py - p0y) * (p1y - p0y)) / d
            in if t < Fin 0 then \<lparr>X = p0x, Y = p0y\<rparr>
               else if Fin 1 < t then \<lparr>X = p1x, Y = p1y\<rparr>
               else \<lparr>X = (Fin 1 - t) * p0x + t * p1x, Y = (Fin 1 - t) * p0y + t * p1y\<rparr>))"

text \<open>
  \<open>reflect\<close> returns either its argument \<open>points\<close>, the very object it was given, or the
  array \<open>reflect\<close> it builds: \<open>SameObject\<close> and \<open>NewObject\<close> tell the two apart.
\<close>

datatype 'a returned = SameObject | NewObject 'a

function reflect_loop ::
  "Point list \<Rightarrow> number \<Rightarrow> number \<Rightarrow> number \<Rightarrow> number \<Rightarrow> nat \<Rightarrow> nat \<Rightarrow> Point list \<Rightarrow> Point list" where
  "reflect_loop points x0 y0 a b len i acc =
     (if i < len then
        reflect_loop points x0 y0 a b len (i + 1)
          (acc @ [\<lparr>X = a * (X (points ! i) - x0) + b * (Y (points ! i) - y0) + x0,
                    Y = b * (X (points ! i) - x0) - a * (Y (points ! i) - y0) + y0\<rparr>])
      else acc)"
  by pat_completeness auto
termination
  by (relation "measure (\<lambda>(points, x0, y0, a, b, len, i, acc). len - i)") auto

definition reflect :: "Point list \<Rightarrow> Point \<Rightarrow> Point \<Rightarrow> Point list returned" where
  "reflect points p0 p1 =
     (let x0 = X p0;
          y0 = Y p0;
          x1 = X p1;
          y1 = Y p1;
          dx = x1 - x0;
          dy = y1 - y0;
          d = dx * dx + dy * dy
      in if \<bar>d\<bar> < Fin 0.00000001 then SameObject
         else
           (let a = (dx * dx - dy * dy) / d;
                b = Fin 2 * dx * dy / d;
                len = length points
            in NewObject (reflect_loop points x0 y0 a b len 0 [])))"

text \<open>
  The point the body of the loop of \<open>reflect\<close> constructs from the point \<open>p\<close>, and the
  points whose two coordinates are finite numbers.
\<close>

definition reflected :: "number \<Rightarrow> number \<Rightarrow> number \<Rightarrow> number \<Rightarrow> Point \<Rightarrow> Point" where
  "reflected x0 y0 a b p =
     \<lparr>X = a * (X p - x0) + b * (Y p - y0) + x0, Y = b * (X p - x0) - a * (Y p - y0) + y0\<rparr>"


section \<open>Objects, references and calls\<close>

text \<open>
  Arguments are passed by reference. The store is the list of the objects allocated so far,
  and a reference is an index into it: a Point object, seen through the interface
  \<open>Point\<close>, or an array of references to Point objects (a point cloud). An allocation
  appends to the store; \<open>reflect.push(q)\<close> is the only write to an object after it has been
  constructed.
\<close>

type_synonym ref = nat

datatype obj = PointObj Point | ArrayObj "ref list"

type_synonym heap = "obj list"

definition point_at :: "heap \<Rightarrow> ref \<Rightarrow> Point option" where
  "point_at h r =
     (if r < length h then (case h ! r of PointObj p \<Rightarrow> Some p | ArrayObj rs \<Rightarrow> None) else None)"

definition array_at :: "heap \<Rightarrow> ref \<Rightarrow> ref list option" where
  "array_at h r =
     (if r < length h then (case h ! r of PointObj p \<Rightarrow> None | ArrayObj rs \<Rightarrow> Some rs) else None)"

definition cloud_at :: "heap \<Rightarrow> ref \<Rightarrow> Point list option" where
  "cloud_at h r = do { rs \<leftarrow> array_at h r; those (map (point_at h) rs) }"

fun arg_at :: "heap \<Rightarrow> ref arg \<Rightarrow> Point arg option" where
  "arg_at h Undefined = Some Undefined"
| "arg_at h Null = Some Null"
| "arg_at h (Val r) = map_option Val (point_at h r)"

text \<open>\<open>new TSMT$Point(x, y)\<close>, \<open>new Array()\<close> and \<open>arr.push(r)\<close>.\<close>

definition new_Point :: "heap \<Rightarrow> Point \<Rightarrow> heap \<times> ref" where
  "new_Point h p = (h @ [PointObj p], length h)"

definition new_Array :: "heap \<Rightarrow> heap \<times> ref" where
  "new_Array h = (h @ [ArrayObj []], length h)"

definition push :: "heap \<Rightarrow> ref \<Rightarrow> ref \<Rightarrow> heap" where
  "push h arr r =
     (case array_at h arr of Some rs \<Rightarrow> h[arr := ArrayObj (rs @ [r])] | None \<Rightarrow> h)"

text \<open>The body of the loop of \<open>reflect\<close> on the store: construct the point, push it.\<close>

fun push_points :: "heap \<Rightarrow> ref \<Rightarrow> Point list \<Rightarrow> heap" where
  "push_points h arr [] = h"
| "push_points h arr (q # qs) =
     (case new_Point h q of (h1, r) \<Rightarrow> push_points (push h1 arr r) arr qs)"

text \<open>
  The operations of the utilities as calls on references, and what a call gives back. A
  call is outside the typed interface when a reference it passes is not in the store or is
  not to an object of the declared type; \<open>invoke\<close> is \<open>None\<close> there.
\<close>

datatype call =
    L2Norm "ref arg" "ref arg"
  | Angle ref ref "bool option"
  | Ratio ref ref ref
  | IsParallel ref ref ref ref
  | PointOnLine ref ref ref
  | IsLeft ref ref ref
  | Project ref ref number
  | BottomLeft ref
  | BottomRight ref
  | ClosestPointToLine ref ref ref
  | PointToLineDistancee ref ref ref
  | PointToSegmentDistance ref ref ref
  | PointSegmentProjection ref ref ref
  | Reflect ref ref ref

datatype outcome =
    Scalar number
  | Boolean bool
  | Index nat
  | PointRef ref
  | CloudRef ref
  | Throws error

fun invoke :: "heap \<Rightarrow> call \<Rightarrow> (heap \<times> outcome) option" where
  "invoke h (L2Norm a0 a1) =
     do { p0 \<leftarrow> arg_at h a0; p1 \<leftarrow> arg_at h a1; Some (h, Scalar (l2Norm p0 p1)) }"
| "invoke h (Angle r0 r1 toDegree) =
     do { p0 \<leftarrow> point_at h r0; p1 \<leftarrow> point_at h r1; Some (h, Scalar (angle p0 p1 toDegree)) }"
| "invoke h (Ratio r0 r1 r2) =
     do { p0 \<leftarrow> point_at h r0; p1 \<leftarrow> point_at h r1; p2 \<leftarrow> point_at h r2;
          Some (h, Scalar (ratio p0 p1 p2)) }"
| "invoke h (IsParallel r0 r1 r2 r3) =
     do { p0 \<leftarrow> point_at h r0; p1 \<leftarrow> point_at h r1; p2 \<leftarrow> point_at h r2;
          p3 \<leftarrow> point_at h r3; Some (h, Boolean (isParallel p0 p1 p2 p3)) }"
| "invoke h (PointOnLine r0 r1 r) =
     do { p0 \<leftarrow> point_at h r0; p1 \<leftarrow> point_at h r1; p \<leftarrow> point_at h r;
          Some (h, Boolean (pointOnLine p0 p1 p)) }"
| "invoke h (IsLeft r0 r1 r2) =
     do { p0 \<leftarrow> point_at h r0; p1 \<leftarrow> point_at h r1; p2 \<leftarrow> point_at h r2;
          Some (h, Boolean (isLeft p0 p1 p2)) }"
| "invoke h (Project r0 r1 d) =
     do { p0 \<leftarrow> point_at h r0; p1 \<leftarrow> point_at h r1;
          (case new_Point h (project p0 p1 d) of (h1, r) \<Rightarrow> Some (h1, PointRef r)) }"
| "invoke h (BottomLeft rs) =
     do { points \<leftarrow> cloud_at h rs; Some (h, Index (bottomLeft points)) }"
| "invoke h (BottomRight rs) =
     do { points \<leftarrow> cloud_at h rs; Some (h, Index (bottomRight points)) }"
| "invoke h (ClosestPointToLine rs r0 r1) =
     do { points \<leftarrow> cloud_at h rs; p0 \<leftarrow> point_at h r0; p1 \<leftarrow> point_at h r1;
          (case closestPointToLine points p0 p1 of
             Inl e \<Rightarrow> Some (h, Throws e)
           | Inr i \<Rightarrow> Some (h, Index i)) }"
| "invoke h (PointToLineDistancee r0 r1 r) =
     do { p0 \<leftarrow> point_at h r0; p1 \<leftarrow> point_at h r1; p \<leftarrow> point_at h r;
          Some (h, Scalar (pointToLineDistancee p0 p1 p)) }"
| "invoke h (PointToSegmentDistance r0 r1 r) =
     do { p0 \<leftarrow> point_at h r0; p1 \<leftarrow> point_at h r1; p \<leftarrow> point_at h r;
          Some (h, Scalar (pointToSegmentDistance p0 p1 p)) }"
| "invoke h (PointSegmentProjection r0 r1 r) =
     do { p0 \<leftarrow> point_at h r0; p1 \<leftarrow> point_at h r1; p \<leftarrow> point_at h r;
          (case new_Point h (pointSegmentProjection p0 p1 p) of
             (h1, q) \<Rightarrow> Some (h1, PointRef q)) }"
| "invoke h (Reflect rs r0 r1) =
     do { points \<leftarrow> cloud_at h rs; p0 \<leftarrow> point_at h r0; p1 \<leftarrow> point_at h r1;
          (case reflect points p0 p1 of
             SameObject \<Rightarrow> Some (h, CloudRef rs)
           | NewObject qs \<Rightarrow>
               (case new_Array h of (h1, arr) \<Rightarrow> Some (push_points h1 arr qs, CloudRef arr))) }"

text \<open>The calls of the typed interface: every reference is to an object of its declared type.\<close>

fun arg_ok :: "heap \<Rightarrow> ref arg \<Rightarrow> bool" where
  "arg_ok h (Val r) = (point_at h r \<noteq> None)"
| "arg_ok h _ = True"

fun well_typed :: "heap \<Rightarrow> call \<Rightarrow> bool" where
  "well_typed h (L2Norm a0 a1) = (arg_ok h a0 \<and> arg_ok h a1)"
| "well_typed h (Angle r0 r1 t) = (point_at h r0 \<noteq> None \<and> point_at h r1 \<noteq> None)"
| "well_typed h (Ratio r0 r1 r2) =
     (point_at h r0 \<noteq> None \<and> point_at h r1 \<noteq> None \<and> point_at h r2 \<noteq> None)"
| "well_typed h (IsParallel r0 r1 r2 r3) =
     (point_at h r0 \<noteq> None \<and> point_at h r1 \<noteq> None \<and> point_at h r2 \<noteq> None
      \<and> point_at h r3 \<noteq> None)"
| "well_typed h (PointOnLine r0 r1 r) =
     (point_at h r0 \<noteq> None \<and> point_at h r1 \<noteq> None \<and> point_at h r \<noteq> None)"
| "well_typed h (IsLeft r0 r1 r) =
     (point_at h r0 \<noteq> None \<and> point_at h r1 \<noteq> None \<and> point_at h r \<noteq> None)"
| "well_typed h (Project r0 r1 d) = (point_at h r0 \<noteq> None \<and> point_at h r1 \<noteq> None)"
| "well_typed h (BottomLeft rs) = (cloud_at h rs \<noteq> None)"
| "well_typed h (BottomRight rs) = (cloud_at h rs \<noteq> None)"
| "well_typed h (ClosestPointToLine rs r0 r1) =
     (cloud_at h rs \<noteq> None \<and> point_at h r0 \<noteq> None \<and> point_at h r1 \<noteq> None)"
| "well_typed h (PointToLineDistancee r0 r1 r) =
     (point_at h r0 \<noteq> None \<and> point_at h r1 \<noteq> None \<and> point_at h r \<noteq> None)"
| "well_typed h (PointToSegmentDistance r0 r1 r) =
     (point_at h r0 \<noteq> None \<and> point_at h r1 \<noteq> None \<and> point_at h r \<noteq> None)"
| "well_typed h (PointSegmentProjection r0 r1 r) =
     (point_at h r0 \<noteq> None \<and> point_at h r1 \<noteq> None \<and> point_at h r \<noteq> None)"
| "well_typed h (Reflect rs r0 r1) =
     (cloud_at h rs \<noteq> None \<and> point_at h r0 \<noteq> None \<and> point_at h r1 \<noteq> None)"

section \<open>Binary64 arithmetic\<close>

text \<open>
  The arithmetic of IEEE-754 doubles: the exact result rounded to the nearest double, ties to
  the even significand, and to an infinity beyond the largest double. \<open>exponent x\<close> is the
  integer part of the binary logarithm of \<open>|x|\<close>; the doubles near \<open>x\<close> are the multiples of
  \<open>2 ^ (exponent x - 52)\<close>, of \<open>2 ^ -1074\<close> in the subnormal range. The sign of zero is not
  modelled.
\<close>

definition MAX_VALUE :: real where
  "MAX_VALUE = (2 ^ 53 - 1) * 2 ^ 971"

definition exponent :: "real \<Rightarrow> int" where
  "exponent x =
     (if 1 \<le> \<bar>x\<bar> then bitlen \<lfloor>\<bar>x\<bar>\<rfloor> - 1
      else (let b = bitlen \<lfloor>1 / \<bar>x\<bar>\<rfloor>
            in if \<bar>x\<bar> * 2 powi (b - 1) = 1 then 1 - b else - b))"

definition ties_even :: "real \<Rightarrow> int" where
  "ties_even y =
     (let f = \<lfloor>y\<rfloor>
      in if y - of_int f < 1 / 2 then f
         else if 1 / 2 < y - of_int f then f + 1
         else if even f then f else f + 1)"

definition rnd :: "real \<Rightarrow> real" where
  "rnd x =
     (if x = 0 then 0
      else (let q = max (- 1074) (exponent x - 52)
            in of_int (ties_even (x / 2 powi q)) * 2 powi q))"

definition round64 :: "real \<Rightarrow> number" where
  "round64 x =
     (if MAX_VALUE < rnd x then PInf else if rnd x < - MAX_VALUE then NInf else Fin (rnd x))"

fun d_add :: "number \<Rightarrow> number \<Rightarrow> number" where
  "d_add (Fin a) (Fin b) = round64 (a + b)"
| "d_add a b = a + b"

fun d_sub :: "number \<Rightarrow> number \<Rightarrow> number" where
  "d_sub (Fin a) (Fin b) = round64 (a - b)"
| "d_sub a b = a - b"

fun d_mul :: "number \<Rightarrow> number \<Rightarrow> number" where
  "d_mul (Fin a) (Fin b) = round64 (a * b)"
| "d_mul a b = a * b"

fun d_div :: "number \<Rightarrow> number \<Rightarrow> number" where
  "d_div (Fin a) (Fin b) = (if b = 0 then Fin a / Fin b else round64 (a / b))"
| "d_div a b = a / b"

fun d_sqrt :: "number \<Rightarrow> number" where
  "d_sqrt (Fin a) = (if a < 0 then NaN else round64 (sqrt a))"
| "d_sqrt a = Math_sqrt a"

text \<open>
  \<open>pointToLineDistancee\<close>, \<open>pointToSegmentDistance\<close> and \<open>reflect\<close> once more, statement by
  statement as above, with every operator replaced by its binary64 counterpart.
\<close>

definition pointToLineDistancee_b64 :: "Point \<Rightarrow> Point \<Rightarrow> Point \<Rightarrow> number" where
  "pointToLineDistancee_b64 p0 p1 p =
     (let vx = d_sub (X p1) (X p0);
          vy = d_sub (Y p1) (Y p0);
          wx = d_sub (X p) (X p0);
          wy = d_sub (Y p) (Y p0);
          c1 = d_add (d_mul vx wx) (d_mul vy wy);
          c2 = d_add (d_mul vx vx) (d_mul vy vy);
          b = d_div c1 c2;
          px = d_add (X p0) (d_mul b vx);
          py = d_add (Y p0) (d_mul b vy);
          dx = d_sub (X p) px;
          dy = d_sub (Y p) py
      in d_sqrt (d_add (d_mul dx dx) (d_mul dy dy)))"

definition pointToSegmentDistance_b64 :: "Point \<Rightarrow> Point \<Rightarrow> Point \<Rightarrow> number" where
  "pointToSegmentDistance_b64 p0 p1 p =
     (let vx = d_sub (X p1) (X p0);
          vy = d_sub (Y p1) (Y p0);
          wx = d_sub (X p) (X p0);
          wy = d_sub (Y p) (Y p0);
          c1 = d_add (d_mul wx vx) (d_mul wy vy)
      in if c1 \<le> Fin 0 then d_sqrt (d_add (d_mul wx wx) (d_mul wy wy))
         else
           (let c2 = d_add (d_mul vx vx) (d_mul vy vy)
            in if c2 \<le> c1 then
                 (let wx' = d_sub (X p1) (X p);
                      wy' = d_sub (Y p1) (Y p)
                  in d_sqrt (d_add (d_mul wx' wx') (d_mul wy' wy')))
               else
                 (let b = d_div c1 c2;
                      px = d_add (X p0) (d_mul b vx);
                      py = d_add (Y p0) (d_mul b vy);
                      dx = d_sub (X p) px;
                      dy = d_sub (Y p) py
                  in d_sqrt (d_add (d_mul dx dx) (d_mul dy dy)))))"



section \<open>Arithmetic on numbers\<close>

lemma sub_Fin [simp]: "Fin a - Fin b = Fin (a - b)"
  by (simp add: minus_number_def)

lemma sub_NaN [simp]: "a - NaN = NaN" "NaN - a = NaN"
  by (cases a; simp add: minus_number_def)+

lemma abs_divide_number: "\<bar>u / v\<bar> = \<bar>u\<bar> / \<bar>v :: number\<bar>"
  by (cases u; cases v) auto



section \<open>Rounding\<close>

text \<open>
  Rounding does not leave an interval \<open>[-2^k, 2^k]\<close> and keeps the sign, so a result of
  magnitude at most \<open>2^1023\<close> is finite. \<open>binary64\<close> collects the equations that evaluate
  the binary64 operators on given numbers.
\<close>

lemmas binary64 =
  round64_def rnd_def exponent_def ties_even_def MAX_VALUE_def Let_def compute_bitlen


lemma exponent_le:
  assumes "x \<noteq> 0"
  shows "2 powi (exponent x) \<le> \<bar>x\<bar>"
proof (cases "1 \<le> \<bar>x\<bar>")
  case True
  define n where "n = \<lfloor>\<bar>x\<bar>\<rfloor>"
  have n: "0 < n" using True by (simp add: n_def)
  have b1: "1 \<le> bitlen n" using n by (simp add: bitlen_alt_def)
  have "(2::int) ^ nat (bitlen n - 1) \<le> n" using bitlen_bounds[OF n] by simp
  then have "of_int ((2::int) ^ nat (bitlen n - 1)) \<le> (of_int n :: real)"
    by (simp only: of_int_le_iff)
  then have "(2::real) ^ nat (bitlen n - 1) \<le> of_int n" by simp
  also have "\<dots> \<le> \<bar>x\<bar>" by (simp add: n_def)
  finally have "(2::real) powi (bitlen n - 1) \<le> \<bar>x\<bar>"
    using b1 by (simp add: power_int_nonneg_exp)
  then show ?thesis using True by (simp add: exponent_def n_def)
next
  case False
  define n where "n = \<lfloor>1 / \<bar>x\<bar>\<rfloor>"
  define b where "b = bitlen n"
  have x: "0 < \<bar>x\<bar>" "\<bar>x\<bar> < 1" using assms False by simp_all
  then have "1 \<le> 1 / \<bar>x\<bar>" by simp
  then have n: "0 < n" by (simp add: n_def)
  have b1: "1 \<le> b" using n by (simp add: b_def bitlen_alt_def)
  show ?thesis
  proof (cases "\<bar>x\<bar> * 2 powi (b - 1) = 1")
    case True
    have e: "exponent x = 1 - b"
      using False True by (simp add: exponent_def Let_def n_def b_def)
    have "(2::real) powi (1 - b) = inverse (2 powi (b - 1))"
      using power_int_minus[of "2::real" "b - 1"] by simp
    also have "\<dots> = \<bar>x\<bar>"
      using True x by (simp add: field_simps)
    finally show ?thesis by (simp add: e)
  next
    case ne: False
    have e: "exponent x = - b"
      using False ne by (simp add: exponent_def Let_def n_def b_def)
    have "n < 2 ^ nat b" using bitlen_bounds[OF n] by (simp add: b_def)
    then have "n + 1 \<le> 2 ^ nat b" by simp
    then have "(of_int (n + 1) :: real) \<le> of_int (2 ^ nat b)" by (simp only: of_int_le_iff)
    then have "(of_int n :: real) + 1 \<le> 2 ^ nat b" by simp
    moreover have "1 / \<bar>x\<bar> < of_int n + 1" by (simp add: n_def)
    ultimately have "1 / \<bar>x\<bar> < 2 ^ nat b" by linarith
    then have "1 / \<bar>x\<bar> < 2 powi b" using b1 by (simp add: power_int_nonneg_exp)
    then have "inverse (2 powi b) < \<bar>x\<bar>"
      using x by (simp add: field_simps)
    then have "(2::real) powi (- b) < \<bar>x\<bar>" by (simp add: power_int_minus)
    then show ?thesis by (simp add: e)
  qed
qed

lemma ties_even_le: "y \<le> of_int N \<Longrightarrow> ties_even y \<le> N"
proof -
  assume a: "y \<le> of_int N"
  have f: "\<lfloor>y\<rfloor> \<le> N" using a by (simp add: floor_le_iff) 
  have "\<lfloor>y\<rfloor> + 1 \<le> N" if "of_int \<lfloor>y\<rfloor> < y"
  proof -
    have "of_int \<lfloor>y\<rfloor> < (of_int N :: real)" using that a by linarith
    then have "\<lfloor>y\<rfloor> < N" by (simp only: of_int_less_iff)
    then show ?thesis by simp
  qed
  then show ?thesis using f by (auto simp add: ties_even_def Let_def)
qed

lemma ties_even_ge: "of_int N \<le> y \<Longrightarrow> N \<le> ties_even y"
proof -
  assume a: "of_int N \<le> y"
  have f: "N \<le> \<lfloor>y\<rfloor>" using a by (simp add: le_floor_iff)
  then show ?thesis by (auto simp add: ties_even_def Let_def)
qed

lemma rnd_le:
  assumes x: "\<bar>x\<bar> \<le> 2 powi k" and k: "- 1074 \<le> k"
  shows "\<bar>rnd x\<bar> \<le> 2 powi k"
proof (cases "x = 0")
  case True
  then show ?thesis by (simp add: rnd_def)
next
  case False
  define q where "q = max (- 1074) (exponent x - 52)"
  have "exponent x \<le> k"
  proof (rule ccontr)
    assume "\<not> exponent x \<le> k"
    then have "(2::real) powi k < 2 powi (exponent x)"
      by (intro power_int_strict_increasing) simp_all
    then show False using exponent_le[OF False] x by linarith
  qed
  then have qk: "q \<le> k" using k by (simp add: q_def)
  define N :: int where "N = 2 ^ nat (k - q)"
  have pq: "(0::real) < 2 powi q" by simp
  have N: "(2::real) powi k = of_int N * 2 powi q"
  proof -
    have "(2::real) powi k = 2 powi ((k - q) + q)" by simp
    also have "\<dots> = 2 powi (k - q) * 2 powi q" by (subst power_int_add) simp_all
    also have "(2::real) powi (k - q) = of_int N"
      using qk by (simp add: N_def power_int_nonneg_exp)
    finally show ?thesis .
  qed
  define y where "y = x / 2 powi q"
  have "\<bar>y\<bar> = \<bar>x\<bar> / 2 powi q" by (simp add: y_def)
  also have "\<dots> \<le> (of_int N * 2 powi q) / 2 powi q"
    using x pq unfolding N by (intro divide_right_mono) simp_all
  also have "\<dots> = of_int N" by simp
  finally have y: "\<bar>y\<bar> \<le> of_int N" .
  then have "y \<le> of_int N" "of_int (- N) \<le> y" by (simp_all add: abs_le_iff)
  then have "ties_even y \<le> N" "- N \<le> ties_even y"
    by (simp_all only: ties_even_le ties_even_ge)
  then have "\<bar>of_int (ties_even y) :: real\<bar> \<le> of_int N"
    by (simp add: abs_le_iff)
  then have "\<bar>of_int (ties_even y) * 2 powi q :: real\<bar> \<le> of_int N * 2 powi q"
    using pq by (simp add: abs_mult)
  then show ?thesis
    using False unfolding N by (simp add: rnd_def Let_def q_def[symmetric] y_def[symmetric])
qed

lemma rnd_nonneg:
  assumes "0 \<le> x"
  shows "0 \<le> rnd x"
proof (cases "x = 0")
  case True
  then show ?thesis by (simp add: rnd_def)
next
  case False
  define q where "q = max (- 1074) (exponent x - 52)"
  have "of_int 0 \<le> x / 2 powi q" using assms by simp
  then have "0 \<le> ties_even (x / 2 powi q)" by (rule ties_even_ge)
  then show ?thesis
    using False by (simp add: rnd_def Let_def q_def[symmetric])
qed

lemma round64_finite:
  assumes x: "\<bar>x\<bar> \<le> 2 powi k" and k: "- 1074 \<le> k" "k \<le> 1023"
  shows "round64 x = Fin (rnd x)"
proof -
  have "\<bar>rnd x\<bar> \<le> 2 powi k" using x k(1) by (rule rnd_le)
  also have "(2::real) powi k \<le> 2 powi 1023"
    using k(2) by (intro power_int_increasing) simp_all
  also have "(2::real) powi 1023 \<le> MAX_VALUE"
    by (simp add: MAX_VALUE_def)
  finally have "\<bar>rnd x\<bar> \<le> MAX_VALUE" .
  then show ?thesis by (simp add: round64_def abs_le_iff)
qed


lemma round64_zero [simp]: "round64 0 = Fin 0"
  by (simp add: round64_def rnd_def MAX_VALUE_def)

lemma d_mul_commute: "d_mul a b = d_mul b a"
  by (cases a; cases b) (simp_all add: mult.commute)

lemma d_literals:
  "round64 (- 8.9) = Fin (- (5010254585449677 / 562949953421312))"
  "round64 2.1 = Fin (4728779608739021 / 2251799813685248)"
  by (simp_all add: binary64)

section \<open>closestPointToLine\<close>

text \<open>
  The loop reads \<open>p[i].x\<close> where \<open>p\<close> is already \<open>points[i]\<close>: from the second element on
  the read is of a property of undefined. A cloud of one point gives index 0; the empty cloud
  throws at \<open>points[0].x\<close>.
\<close>

lemma closestPointToLine_throws:
  "2 \<le> length points \<Longrightarrow> closestPointToLine points p0 p1 = Inl TypeError"
  by (simp add: closestPointToLine_def elem_def Let_def)

lemma closestPointToLine_single: "closestPointToLine [p] p0 p1 = Inr 0"
  by (simp add: closestPointToLine_def elem_def Let_def)

lemma closestPointToLine_empty: "closestPointToLine [] p0 p1 = Inl TypeError"
  by (simp add: closestPointToLine_def elem_def Let_def)

text \<open>
  C1. \<open>closestPointToLine\<close> is to return the index of the cloud element that minimises
  \<open>|a*x + b*y + c|\<close>, the lowest such index on ties. On the cloud \<open>[(0,0), (10,10)]\<close> and the
  line through \<open>(0,5)\<close> and \<open>(10,5)\<close>, where both elements are at distance 50 and the index
  to return is 0, the code throws a TypeError.
\<close>

theorem closestPointToLine_tie_throws:
  "closestPointToLine [\<lparr>X = Fin 0, Y = Fin 0\<rparr>, \<lparr>X = Fin 10, Y = Fin 10\<rparr>]
     \<lparr>X = Fin 0, Y = Fin 5\<rparr> \<lparr>X = Fin 10, Y = Fin 5\<rparr> = Inl TypeError"
  by (simp add: closestPointToLine_def elem_def)

section \<open>l2Norm\<close>

text \<open>
  C7. \<open>l2Norm\<close> is 0 when either argument is left out or null; on two points it is the
  square root of the sum of the squared coordinate differences, which on finite coordinates
  is the Euclidean distance.
\<close>

theorem l2Norm_absent_or_distance:
  "l2Norm Undefined p1 = Fin 0 \<and> l2Norm Null p1 = Fin 0
   \<and> l2Norm p0 Undefined = Fin 0 \<and> l2Norm p0 Null = Fin 0
   \<and> l2Norm (Val q0) (Val q1)
       = Math_sqrt ((X q0 - X q1) * (X q0 - X q1) + (Y q0 - Y q1) * (Y q0 - Y q1))
   \<and> l2Norm (Val \<lparr>X = Fin x0, Y = Fin y0\<rparr>) (Val \<lparr>X = Fin x1, Y = Fin y1\<rparr>)
       = Fin (sqrt ((x0 - x1)\<^sup>2 + (y0 - y1)\<^sup>2))"
  by (simp add: l2Norm_def Let_def power2_eq_square not_sum_squares_lt_zero split: arg.splits)

section \<open>compare\<close>

text \<open>
  C6. \<open>compare\<close> is false when either value is undefined, null or NaN, true when the two
  values are equal, and otherwise tells whether \<open>|a - b|\<close> divided by the larger of \<open>|a|\<close> and
  \<open>|b|\<close> is at most the tolerance, 0.001 when none is given. On finite values the quotient is
  the one of the real numbers.
\<close>

theorem compare_relative_error:
  "compare a b tol =
     (case (a, b) of
        (Val u, Val v) \<Rightarrow>
           if isNaN u \<or> isNaN v then False
           else if u = v then True
           else \<bar>u - v\<bar> / (if \<bar>u\<bar> < \<bar>v\<bar> then \<bar>v\<bar> else \<bar>u\<bar>)
                  \<le> (case tol of None \<Rightarrow> Fin 0.001 | Some t \<Rightarrow> t)
      | _ \<Rightarrow> False)
   \<and> compare (Val (Fin x)) (Val (Fin y)) (Some (Fin t))
       = (x = y \<or> \<bar>x - y\<bar> / max \<bar>x\<bar> \<bar>y\<bar> \<le> t)
   \<and> compare (Val (Fin x)) (Val (Fin y)) None
       = (x = y \<or> \<bar>x - y\<bar> / max \<bar>x\<bar> \<bar>y\<bar> \<le> 0.001)"
proof (intro conjI)
  show "compare a b tol =
     (case (a, b) of
        (Val u, Val v) \<Rightarrow>
           if isNaN u \<or> isNaN v then False
           else if u = v then True
           else \<bar>u - v\<bar> / (if \<bar>u\<bar> < \<bar>v\<bar> then \<bar>v\<bar> else \<bar>u\<bar>)
                  \<le> (case tol of None \<Rightarrow> Fin 0.001 | Some t \<Rightarrow> t)
      | _ \<Rightarrow> False)"
    by (auto simp add: compare_def Let_def number_eq_def abs_divide_number split: arg.splits)
  show "compare (Val (Fin x)) (Val (Fin y)) (Some (Fin t))
       = (x = y \<or> \<bar>x - y\<bar> / max \<bar>x\<bar> \<bar>y\<bar> \<le> t)"
    by (auto simp add: compare_def Let_def number_eq_def max_def)
  show "compare (Val (Fin x)) (Val (Fin y)) None
       = (x = y \<or> \<bar>x - y\<bar> / max \<bar>x\<bar> \<bar>y\<bar> \<le> 0.001)"
    by (auto simp add: compare_def Let_def number_eq_def max_def)
qed

section \<open>TSMT$Point: the coordinate setters and length\<close>

text \<open>
  C10. Assigning a number \<open>v\<close> to \<open>x\<close> or \<open>y\<close> stores \<open>v\<close> when it is finite and not NaN
  and 0 otherwise, so the stored coordinate is a finite number; the next \<open>length()\<close>
  returns the square root of the sum of the squares of the coordinates then stored,
  whatever norm the instance had cached before the write.
\<close>

theorem setters_store_finite_and_invalidate:
  "f_x (Point_set_x env p (VNumber v)) = VNumber (if \<not> isNaN v \<and> isFinite v then v else Fin 0)
   \<and> f_y (Point_set_y env p (VNumber v)) = VNumber (if \<not> isNaN v \<and> isFinite v then v else Fin 0)
   \<and> (\<exists>r. f_x (Point_set_x env p (VNumber v)) = VNumber (Fin r))
   \<and> (\<exists>r. f_y (Point_set_y env p (VNumber v)) = VNumber (Fin r))
   \<and> (let q = Point_set_x env p (VNumber v)
       in fst (Point_length env q)
          = VNumber (Math_sqrt (ToNumber env (f_x q) * ToNumber env (f_x q)
                                + ToNumber env (f_y q) * ToNumber env (f_y q))))
   \<and> (let q = Point_set_y env p (VNumber v)
       in fst (Point_length env q)
          = VNumber (Math_sqrt (ToNumber env (f_x q) * ToNumber env (f_x q)
                                + ToNumber env (f_y q) * ToNumber env (f_y q))))
   \<and> fst (Point_length env (Point_set_x env (p\<lparr>f_y := VNumber (Fin b)\<rparr>) (VNumber (Fin a))))
       = VNumber (Fin (sqrt (a\<^sup>2 + b\<^sup>2)))
   \<and> fst (Point_length env (Point_set_y env (p\<lparr>f_x := VNumber (Fin a)\<rparr>) (VNumber (Fin b))))
       = VNumber (Fin (sqrt (a\<^sup>2 + b\<^sup>2)))"
  by (cases v)
     (simp_all add: Point_set_x_def Point_set_y_def Point_length_def Let_def power2_eq_square
        not_sum_squares_lt_zero)

section \<open>Distance to a line and to a segment\<close>

text \<open>
  The claim that \<open>pointToSegmentDistance\<close> on a degenerate segment returns a finite number
  for every test point fails on doubles: for \<open>p0 = p1 = (0, 0)\<close> and \<open>p = (2^512, 0)\<close> the
  square \<open>wx * wx\<close> overflows and the result is Infinity.
\<close>

theorem degenerate_segment_overflow:
  "pointToSegmentDistance_b64 \<lparr>X = Fin 0, Y = Fin 0\<rparr> \<lparr>X = Fin 0, Y = Fin 0\<rparr>
      \<lparr>X = Fin (2 ^ 512), Y = Fin 0\<rparr> = PInf"
  by (simp add: pointToSegmentDistance_b64_def binary64)

text \<open>
  C9. When \<open>p0\<close> and \<open>p1\<close> have the same coordinates and the coordinates of \<open>p0\<close> and of
  the test point \<open>p\<close> are of magnitude at most \<open>2^510\<close>, \<open>pointToSegmentDistance\<close> as the
  doubles compute it takes the first clamp and returns \<open>Math.sqrt(wx*wx + wy*wy)\<close> for
  \<open>wx = p.x - p0.x\<close> and \<open>wy = p.y - p0.y\<close>, a finite number that is not negative, and
  \<open>pointToLineDistancee\<close> returns NaN on the same arguments. In exact arithmetic that result
  of \<open>pointToSegmentDistance\<close> is the Euclidean distance from \<open>p\<close> to \<open>p0\<close>.
\<close>

theorem degenerate_segment_distance:
  assumes a: "\<bar>a\<bar> \<le> 2 ^ 510" and b: "\<bar>b\<bar> \<le> 2 ^ 510"
      and u: "\<bar>u\<bar> \<le> 2 ^ 510" and v: "\<bar>v\<bar> \<le> 2 ^ 510"
  shows "(\<exists>r. 0 \<le> r \<and> pointToSegmentDistance_b64 \<lparr>X = Fin a, Y = Fin b\<rparr> \<lparr>X = Fin a, Y = Fin b\<rparr>
                         \<lparr>X = Fin u, Y = Fin v\<rparr> = Fin r)
       \<and> pointToSegmentDistance_b64 \<lparr>X = Fin a, Y = Fin b\<rparr> \<lparr>X = Fin a, Y = Fin b\<rparr> \<lparr>X = Fin u, Y = Fin v\<rparr>
           = d_sqrt (d_add (d_mul (d_sub (Fin u) (Fin a)) (d_sub (Fin u) (Fin a)))
                           (d_mul (d_sub (Fin v) (Fin b)) (d_sub (Fin v) (Fin b))))
       \<and> pointToLineDistancee_b64 \<lparr>X = Fin a, Y = Fin b\<rparr> \<lparr>X = Fin a, Y = Fin b\<rparr> \<lparr>X = Fin u, Y = Fin v\<rparr>
           = NaN
       \<and> pointToSegmentDistance \<lparr>X = Fin a, Y = Fin b\<rparr> \<lparr>X = Fin a, Y = Fin b\<rparr> \<lparr>X = Fin u, Y = Fin v\<rparr>
           = Fin (sqrt ((u - a)\<^sup>2 + (v - b)\<^sup>2))
       \<and> pointToLineDistancee \<lparr>X = Fin a, Y = Fin b\<rparr> \<lparr>X = Fin a, Y = Fin b\<rparr> \<lparr>X = Fin u, Y = Fin v\<rparr>
           = NaN"
proof -
  define wx wy where "wx = rnd (u - a)" and "wy = rnd (v - b)"
  have p: "(2::real) ^ 510 + 2 ^ 510 = 2 powi 511" by simp
  have du: "\<bar>u - a\<bar> \<le> 2 powi 511" and dv: "\<bar>v - b\<bar> \<le> 2 powi 511"
    using a b u v unfolding p[symmetric] by linarith+
  have wxr: "round64 (u - a) = Fin wx"
    unfolding wx_def by (rule round64_finite[OF du]) simp_all
  have wyr: "round64 (v - b) = Fin wy"
    unfolding wy_def by (rule round64_finite[OF dv]) simp_all
  have wxb: "\<bar>wx\<bar> \<le> 2 powi 511"
    unfolding wx_def by (rule rnd_le[OF du]) simp
  have wyb: "\<bar>wy\<bar> \<le> 2 powi 511"
    unfolding wy_def by (rule rnd_le[OF dv]) simp
  define s1 s2 where "s1 = rnd (wx * wx)" and "s2 = rnd (wy * wy)"
  have q: "(2::real) powi 511 * 2 powi 511 = 2 powi 1022"
    by (subst power_int_add[symmetric]) simp_all
  have "\<bar>wx\<bar> * \<bar>wx\<bar> \<le> 2 powi 511 * 2 powi 511"
    using wxb by (intro mult_mono) simp_all
  then have m1: "\<bar>wx * wx\<bar> \<le> 2 powi 1022"
    unfolding q by (simp only: abs_mult)
  have "\<bar>wy\<bar> * \<bar>wy\<bar> \<le> 2 powi 511 * 2 powi 511"
    using wyb by (intro mult_mono) simp_all
  then have m2: "\<bar>wy * wy\<bar> \<le> 2 powi 1022"
    unfolding q by (simp only: abs_mult)
  have s1r: "round64 (wx * wx) = Fin s1"
    unfolding s1_def by (rule round64_finite[OF m1]) simp_all
  have s2r: "round64 (wy * wy) = Fin s2"
    unfolding s2_def by (rule round64_finite[OF m2]) simp_all
  have s1b: "\<bar>s1\<bar> \<le> 2 powi 1022"
    unfolding s1_def by (rule rnd_le[OF m1]) simp
  have s2b: "\<bar>s2\<bar> \<le> 2 powi 1022"
    unfolding s2_def by (rule rnd_le[OF m2]) simp
  have s1n: "0 \<le> s1" and s2n: "0 \<le> s2"
    unfolding s1_def s2_def by (rule rnd_nonneg, simp)+
  define s where "s = rnd (s1 + s2)"
  have q2: "(2::real) powi 1022 + 2 powi 1022 = 2 powi 1023"
  proof -
    have "(2::real) powi 1023 = 2 powi (1 + 1022)" by simp
    also have "\<dots> = 2 powi 1 * 2 powi 1022" by (subst power_int_add) simp_all
    finally show ?thesis by (simp only: power_int_1_right)
  qed
  have m3: "\<bar>s1 + s2\<bar> \<le> 2 powi 1023"
    using s1b s2b unfolding q2[symmetric] by linarith
  have sr: "round64 (s1 + s2) = Fin s"
    unfolding s_def by (rule round64_finite[OF m3]) simp_all
  have sb: "\<bar>s\<bar> \<le> 2 powi 1023"
    unfolding s_def by (rule rnd_le[OF m3]) simp
  have sn: "0 \<le> s"
    unfolding s_def by (rule rnd_nonneg) (use s1n s2n in simp)
  define r where "r = rnd (sqrt s)"
  have q3: "(2::real) powi 512 * 2 powi 512 = 2 powi 1024"
    by (subst power_int_add[symmetric]) simp_all
  have "(2::real) powi 1023 \<le> 2 powi 1024"
    by (intro power_int_increasing) simp_all
  then have "s \<le> (2 powi 512)\<^sup>2"
    using sb unfolding power2_eq_square q3 by linarith
  then have "sqrt s \<le> sqrt ((2 powi 512)\<^sup>2)"
    by (simp only: real_sqrt_le_iff)
  also have "sqrt (((2::real) powi 512)\<^sup>2) = 2 powi 512"
    by (rule real_sqrt_unique) (rule refl, rule zero_le_power_int, simp)
  finally have "sqrt s \<le> 2 powi 512" .
  moreover have "0 \<le> sqrt s" using sn by simp
  ultimately have m4: "\<bar>sqrt s\<bar> \<le> 2 powi 512" by linarith
  have rr: "round64 (sqrt s) = Fin r"
    unfolding r_def by (rule round64_finite[OF m4]) simp_all
  have rn: "0 \<le> r"
    unfolding r_def by (rule rnd_nonneg) (use sn in simp)
  have seg: "pointToSegmentDistance_b64 \<lparr>X = Fin a, Y = Fin b\<rparr> \<lparr>X = Fin a, Y = Fin b\<rparr>
      \<lparr>X = Fin u, Y = Fin v\<rparr> = Fin r"
    using sn by (simp add: pointToSegmentDistance_b64_def Let_def wxr wyr s1r s2r sr rr)
  have e: "d_sqrt (d_add (d_mul (d_sub (Fin u) (Fin a)) (d_sub (Fin u) (Fin a)))
                           (d_mul (d_sub (Fin v) (Fin b)) (d_sub (Fin v) (Fin b)))) = Fin r"
    using sn by (simp add: wxr wyr s1r s2r sr rr)
  have line: "pointToLineDistancee_b64 \<lparr>X = Fin a, Y = Fin b\<rparr> \<lparr>X = Fin a, Y = Fin b\<rparr>
      \<lparr>X = Fin u, Y = Fin v\<rparr> = NaN"
    by (simp add: pointToLineDistancee_b64_def Let_def wxr wyr)
  have ex: "pointToSegmentDistance \<lparr>X = Fin a, Y = Fin b\<rparr> \<lparr>X = Fin a, Y = Fin b\<rparr> \<lparr>X = Fin u, Y = Fin v\<rparr>
       = Fin (sqrt ((u - a)\<^sup>2 + (v - b)\<^sup>2))
     \<and> pointToLineDistancee \<lparr>X = Fin a, Y = Fin b\<rparr> \<lparr>X = Fin a, Y = Fin b\<rparr> \<lparr>X = Fin u, Y = Fin v\<rparr>
       = NaN"
    by (simp add: pointToSegmentDistance_def pointToLineDistancee_def Let_def power2_eq_square
        not_sum_squares_lt_zero)
  show ?thesis using seg e line rn ex by simp
qed


theorem degenerate_segment_distance_witness:
  "\<bar>0::real\<bar> \<le> 2 ^ 510 \<and> \<bar>3::real\<bar> \<le> 2 ^ 510 \<and> \<bar>4::real\<bar> \<le> 2 ^ 510
   \<and> (\<exists>r. 0 \<le> r \<and> pointToSegmentDistance_b64 \<lparr>X = Fin 0, Y = Fin 0\<rparr> \<lparr>X = Fin 0, Y = Fin 0\<rparr>
                         \<lparr>X = Fin 3, Y = Fin 4\<rparr> = Fin r)
   \<and> pointToLineDistancee_b64 \<lparr>X = Fin 0, Y = Fin 0\<rparr> \<lparr>X = Fin 0, Y = Fin 0\<rparr> \<lparr>X = Fin 3, Y = Fin 4\<rparr>
       = NaN"
proof -
  have h: "\<bar>0::real\<bar> \<le> 2 ^ 510" "\<bar>3::real\<bar> \<le> 2 ^ 510" "\<bar>4::real\<bar> \<le> 2 ^ 510"
    by simp_all
  show ?thesis
    using h degenerate_segment_distance [OF h(1) h(1) h(2) h(3)] by blast
qed

lemma line_dist_sq:
  fixes vx vy wx wy :: real
  assumes "0 < vx * vx + vy * vy"
  shows "(wx - (vx * wx + vy * wy) / (vx * vx + vy * vy) * vx)\<^sup>2
       + (wy - (vx * wx + vy * wy) / (vx * vx + vy * vy) * vy)\<^sup>2
       = (wx * wx + wy * wy) - (vx * wx + vy * wy)\<^sup>2 / (vx * vx + vy * vy)"
proof -
  define c2 where "c2 = vx * vx + vy * vy"
  define c1 where "c1 = vx * wx + vy * wy"
  define k where "k = c1 / c2"
  have c2: "c2 \<noteq> 0" using assms unfolding c2_def by auto
  have "(wx - k * vx)\<^sup>2 + (wy - k * vy)\<^sup>2
      = (wx * wx + wy * wy) - 2 * k * (vx * wx + vy * wy) + k\<^sup>2 * (vx * vx + vy * vy)"
    by (simp add: power2_eq_square algebra_simps)
  also have "\<dots> = (wx * wx + wy * wy) - 2 * k * c1 + k\<^sup>2 * c2"
    by (simp add: c1_def c2_def)
  also have "\<dots> = (wx * wx + wy * wy) - c1\<^sup>2 / c2"
    using c2 unfolding k_def by (simp add: power2_eq_square field_simps)
  finally show ?thesis by (simp add: c1_def c2_def k_def)
qed

text \<open>
  In exact arithmetic the distance to the segment is at least the distance to the line.
\<close>

lemma segment_ge_line_exact:
  assumes ne0: "(x0, y0) \<noteq> (x1, y1)"
  shows "pointToLineDistancee \<lparr>X = Fin x0, Y = Fin y0\<rparr> \<lparr>X = Fin x1, Y = Fin y1\<rparr> \<lparr>X = Fin x, Y = Fin y\<rparr>
       \<le> pointToSegmentDistance \<lparr>X = Fin x0, Y = Fin y0\<rparr> \<lparr>X = Fin x1, Y = Fin y1\<rparr> \<lparr>X = Fin x, Y = Fin y\<rparr>"
proof -
  have ne: "x0 \<noteq> x1 \<or> y0 \<noteq> y1" using ne0 by simp
  define vx vy wx wy where "vx = x1 - x0" and "vy = y1 - y0" and "wx = x - x0" and "wy = y - y0"
  define c1 c2 where "c1 = vx * wx + vy * wy" and "c2 = vx * vx + vy * vy"
  have c2: "0 < c2"
    using ne unfolding c2_def vx_def vy_def by (auto simp: sum_squares_gt_zero_iff)
  define L where "L = (x - (x0 + c1 / c2 * vx)) * (x - (x0 + c1 / c2 * vx))
                     + (y - (y0 + c1 / c2 * vy)) * (y - (y0 + c1 / c2 * vy))"
  have Lnn: "\<not> L < 0" unfolding L_def by (simp add: not_sum_squares_lt_zero)
  have "L = (wx - c1 / c2 * vx)\<^sup>2 + (wy - c1 / c2 * vy)\<^sup>2"
    unfolding L_def wx_def wy_def by (simp add: power2_eq_square algebra_simps)
  also have "\<dots> = (wx * wx + wy * wy) - c1\<^sup>2 / c2"
    using line_dist_sq[of vx vy wx wy] c2 unfolding c1_def c2_def by simp
  finally have L: "L = (wx * wx + wy * wy) - c1\<^sup>2 / c2" .
  have line: "pointToLineDistancee \<lparr>X = Fin x0, Y = Fin y0\<rparr> \<lparr>X = Fin x1, Y = Fin y1\<rparr> \<lparr>X = Fin x, Y = Fin y\<rparr>
      = Fin (sqrt L)"
    using c2 Lnn ne
    by (auto simp add: pointToLineDistancee_def Let_def L_def c1_def c2_def vx_def vy_def wx_def wy_def)
  have c1': "wx * vx + wy * vy = c1" by (simp add: c1_def mult.commute)
  have seg: "pointToSegmentDistance \<lparr>X = Fin x0, Y = Fin y0\<rparr> \<lparr>X = Fin x1, Y = Fin y1\<rparr> \<lparr>X = Fin x, Y = Fin y\<rparr>
      = Fin (if c1 \<le> 0 then sqrt (wx * wx + wy * wy)
             else if c2 \<le> c1 then sqrt ((x1 - x) * (x1 - x) + (y1 - y) * (y1 - y))
             else sqrt L)"
    using c2 Lnn ne
    by (auto simp add: pointToSegmentDistance_def Let_def L_def c1_def c2_def vx_def vy_def wx_def wy_def
        not_sum_squares_lt_zero mult.commute)
  have q: "0 \<le> c1\<^sup>2 / c2" using c2 by simp
  have a: "L \<le> wx * wx + wy * wy" using q L by linarith
  have "(x1 - x) * (x1 - x) + (y1 - y) * (y1 - y) = (wx * wx + wy * wy) - 2 * c1 + c2"
    unfolding c1_def c2_def vx_def vy_def wx_def wy_def by (simp add: algebra_simps)
  moreover have "0 \<le> (c2 - c1)\<^sup>2 / c2" using c2 by simp
  moreover have "(c2 - c1)\<^sup>2 / c2 = c2 - 2 * c1 + c1\<^sup>2 / c2"
    using c2 by (simp add: power2_eq_square field_simps)
  ultimately have b: "L \<le> (x1 - x) * (x1 - x) + (y1 - y) * (y1 - y)"
    using L by linarith
  show ?thesis
    unfolding line seg using a b by simp
qed

text \<open>
  As the doubles compute them the two functions run the same operations on the same values
  when neither clamp fires, so their results are equal there.
\<close>

lemma unclamped_segment_eq_line_binary64:
  "(let vx = d_sub (X p1) (X p0);
        vy = d_sub (Y p1) (Y p0);
        wx = d_sub (X p) (X p0);
        wy = d_sub (Y p) (Y p0);
        c1 = d_add (d_mul wx vx) (d_mul wy vy);
        c2 = d_add (d_mul vx vx) (d_mul vy vy)
    in \<not> c1 \<le> Fin 0 \<and> \<not> c2 \<le> c1 \<longrightarrow>
         pointToSegmentDistance_b64 p0 p1 p = pointToLineDistancee_b64 p0 p1 p)"
  by (simp add: pointToSegmentDistance_b64_def pointToLineDistancee_b64_def Let_def
      d_mul_commute[of "d_sub (X p) (X p0)"] d_mul_commute[of "d_sub (Y p) (Y p0)"])

text \<open>
  The claim that the segment distance never falls below the line distance fails on doubles
  where the second clamp fires: for \<open>p0 = (3, -8.9)\<close>, \<open>p1 = (2, 2.1)\<close> and \<open>p = p1\<close> (the
  doubles that these literals denote, see \<open>d_literals\<close>) \<open>pointToSegmentDistance\<close> returns 0
  and \<open>pointToLineDistancee\<close> returns \<open>2^-51\<close>, since \<open>p0.y + b * vy\<close> is rounded off \<open>p1.y\<close>.
\<close>

lemma sqrt_2_power_minus_102:
  "sqrt (1 / 5070602400912917605986812821504) = 1 / 2251799813685248"
  by (rule real_sqrt_unique) (simp_all add: power2_eq_square)

theorem segment_below_line_binary64:
  "pointToSegmentDistance_b64 \<lparr>X = Fin 3, Y = Fin (- (5010254585449677 / 562949953421312))\<rparr>
      \<lparr>X = Fin 2, Y = Fin (4728779608739021 / 2251799813685248)\<rparr>
      \<lparr>X = Fin 2, Y = Fin (4728779608739021 / 2251799813685248)\<rparr> = Fin 0
   \<and> pointToLineDistancee_b64 \<lparr>X = Fin 3, Y = Fin (- (5010254585449677 / 562949953421312))\<rparr>
      \<lparr>X = Fin 2, Y = Fin (4728779608739021 / 2251799813685248)\<rparr>
      \<lparr>X = Fin 2, Y = Fin (4728779608739021 / 2251799813685248)\<rparr> = Fin (1 / 2251799813685248)
   \<and> \<not> pointToLineDistancee_b64 \<lparr>X = Fin 3, Y = Fin (- (5010254585449677 / 562949953421312))\<rparr>
      \<lparr>X = Fin 2, Y = Fin (4728779608739021 / 2251799813685248)\<rparr>
      \<lparr>X = Fin 2, Y = Fin (4728779608739021 / 2251799813685248)\<rparr>
     \<le> pointToSegmentDistance_b64 \<lparr>X = Fin 3, Y = Fin (- (5010254585449677 / 562949953421312))\<rparr>
      \<lparr>X = Fin 2, Y = Fin (4728779608739021 / 2251799813685248)\<rparr>
      \<lparr>X = Fin 2, Y = Fin (4728779608739021 / 2251799813685248)\<rparr>"
proof -
  have s: "pointToSegmentDistance_b64 \<lparr>X = Fin 3, Y = Fin (- (5010254585449677 / 562949953421312))\<rparr>
      \<lparr>X = Fin 2, Y = Fin (4728779608739021 / 2251799813685248)\<rparr>
      \<lparr>X = Fin 2, Y = Fin (4728779608739021 / 2251799813685248)\<rparr> = Fin 0"
    by (simp add: pointToSegmentDistance_b64_def binary64)
  have l: "pointToLineDistancee_b64 \<lparr>X = Fin 3, Y = Fin (- (5010254585449677 / 562949953421312))\<rparr>
      \<lparr>X = Fin 2, Y = Fin (4728779608739021 / 2251799813685248)\<rparr>
      \<lparr>X = Fin 2, Y = Fin (4728779608739021 / 2251799813685248)\<rparr> = Fin (1 / 2251799813685248)"
    by (simp add: pointToLineDistancee_b64_def binary64 sqrt_2_power_minus_102)
  show ?thesis unfolding s l by simp
qed

text \<open>
  C5. For two distinct points \<open>p0\<close>, \<open>p1\<close> and any test point \<open>p\<close> (finite coordinates): in
  exact arithmetic the distance from \<open>p\<close> to the segment is at least its distance to the line
  through \<open>p0\<close> and \<open>p1\<close>; as the doubles compute them, the two distances are equal when
  neither clamp fires (\<open>c1 > 0\<close> and \<open>c2 > c1\<close>).
\<close>

theorem segment_distance_ge_line_distance:
  assumes ne0: "(x0, y0) \<noteq> (x1, y1)"
  shows "pointToLineDistancee \<lparr>X = Fin x0, Y = Fin y0\<rparr> \<lparr>X = Fin x1, Y = Fin y1\<rparr> \<lparr>X = Fin x, Y = Fin y\<rparr>
       \<le> pointToSegmentDistance \<lparr>X = Fin x0, Y = Fin y0\<rparr> \<lparr>X = Fin x1, Y = Fin y1\<rparr> \<lparr>X = Fin x, Y = Fin y\<rparr>
     \<and> (let vx = d_sub (Fin x1) (Fin x0);
             vy = d_sub (Fin y1) (Fin y0);
             wx = d_sub (Fin x) (Fin x0);
             wy = d_sub (Fin y) (Fin y0);
             c1 = d_add (d_mul wx vx) (d_mul wy vy);
             c2 = d_add (d_mul vx vx) (d_mul vy vy)
         in \<not> c1 \<le> Fin 0 \<and> \<not> c2 \<le> c1 \<longrightarrow>
              pointToSegmentDistance_b64 \<lparr>X = Fin x0, Y = Fin y0\<rparr> \<lparr>X = Fin x1, Y = Fin y1\<rparr>
                  \<lparr>X = Fin x, Y = Fin y\<rparr>
              = pointToLineDistancee_b64 \<lparr>X = Fin x0, Y = Fin y0\<rparr> \<lparr>X = Fin x1, Y = Fin y1\<rparr>
                  \<lparr>X = Fin x, Y = Fin y\<rparr>)"
proof
  show "pointToLineDistancee \<lparr>X = Fin x0, Y = Fin y0\<rparr> \<lparr>X = Fin x1, Y = Fin y1\<rparr> \<lparr>X = Fin x, Y = Fin y\<rparr>
       \<le> pointToSegmentDistance \<lparr>X = Fin x0, Y = Fin y0\<rparr> \<lparr>X = Fin x1, Y = Fin y1\<rparr> \<lparr>X = Fin x, Y = Fin y\<rparr>"
    using ne0 by (rule segment_ge_line_exact)
  show "(let vx = d_sub (Fin x1) (Fin x0);
             vy = d_sub (Fin y1) (Fin y0);
             wx = d_sub (Fin x) (Fin x0);
             wy = d_sub (Fin y) (Fin y0);
             c1 = d_add (d_mul wx vx) (d_mul wy vy);
             c2 = d_add (d_mul vx vx) (d_mul vy vy)
         in \<not> c1 \<le> Fin 0 \<and> \<not> c2 \<le> c1 \<longrightarrow>
              pointToSegmentDistance_b64 \<lparr>X = Fin x0, Y = Fin y0\<rparr> \<lparr>X = Fin x1, Y = Fin y1\<rparr>
                  \<lparr>X = Fin x, Y = Fin y\<rparr>
              = pointToLineDistancee_b64 \<lparr>X = Fin x0, Y = Fin y0\<rparr> \<lparr>X = Fin x1, Y = Fin y1\<rparr>
                  \<lparr>X = Fin x, Y = Fin y\<rparr>)"
    using unclamped_segment_eq_line_binary64
      [of "\<lparr>X = Fin x1, Y = Fin y1\<rparr>" "\<lparr>X = Fin x0, Y = Fin y0\<rparr>" "\<lparr>X = Fin x, Y = Fin y\<rparr>"]
    by simp
qed

theorem segment_distance_ge_line_distance_witness:
  "((0::real), (0::real)) \<noteq> (1, 0)
   \<and> pointToLineDistancee \<lparr>X = Fin 0, Y = Fin 0\<rparr> \<lparr>X = Fin 1, Y = Fin 0\<rparr> \<lparr>X = Fin 2, Y = Fin 1\<rparr>
       \<le> pointToSegmentDistance \<lparr>X = Fin 0, Y = Fin 0\<rparr> \<lparr>X = Fin 1, Y = Fin 0\<rparr> \<lparr>X = Fin 2, Y = Fin 1\<rparr>"
proof -
  have h: "((0::real), (0::real)) \<noteq> (1, 0)" by simp
  have "pointToLineDistancee \<lparr>X = Fin 0, Y = Fin 0\<rparr> \<lparr>X = Fin 1, Y = Fin 0\<rparr> \<lparr>X = Fin 2, Y = Fin 1\<rparr>
       \<le> pointToSegmentDistance \<lparr>X = Fin 0, Y = Fin 0\<rparr> \<lparr>X = Fin 1, Y = Fin 0\<rparr> \<lparr>X = Fin 2, Y = Fin 1\<rparr>"
    using segment_distance_ge_line_distance [OF h, of 2 1] by (rule conjunct1)
  then show ?thesis using h by blast
qed

section \<open>reflect\<close>

declare reflect_loop.simps [simp del]

lemma reflect_loop_eq:
  "len = length points \<Longrightarrow>
   reflect_loop points x0 y0 a b len i acc = acc @ map (reflected x0 y0 a b) (drop i points)"
proof (induction points x0 y0 a b len i acc rule: reflect_loop.induct)
  case (1 points x0 y0 a b len i acc)
  show ?case
  proof (cases "i < len")
    case True
    then have d: "drop i points = points ! i # drop (i + 1) points"
      using "1.prems" by (simp add: Cons_nth_drop_Suc)
    have "reflect_loop points x0 y0 a b len i acc
        = reflect_loop points x0 y0 a b len (i + 1) (acc @ [reflected x0 y0 a b (points ! i)])"
      using True by (subst reflect_loop.simps) (simp add: reflected_def)
    also have "\<dots> = (acc @ [reflected x0 y0 a b (points ! i)])
                        @ map (reflected x0 y0 a b) (drop (i + 1) points)"
      using "1.IH"[OF True "1.prems"] by (simp add: reflected_def)
    finally show ?thesis by (simp add: d)
  next
    case False
    then show ?thesis
      using "1.prems" by (subst reflect_loop.simps) simp
  qed
qed

lemma reflect_NewObject:
  assumes "\<not> \<bar>(X p1 - X p0) * (X p1 - X p0) + (Y p1 - Y p0) * (Y p1 - Y p0)\<bar> < Fin 0.00000001"
  shows "reflect points p0 p1 =
     NewObject (map (reflected (X p0) (Y p0)
        (((X p1 - X p0) * (X p1 - X p0) - (Y p1 - Y p0) * (Y p1 - Y p0))
           / ((X p1 - X p0) * (X p1 - X p0) + (Y p1 - Y p0) * (Y p1 - Y p0)))
        (Fin 2 * (X p1 - X p0) * (Y p1 - Y p0)
           / ((X p1 - X p0) * (X p1 - X p0) + (Y p1 - Y p0) * (Y p1 - Y p0)))) points)"
  using assms by (simp add: reflect_def Let_def reflect_loop_eq)

lemma reflect_SameObject:
  assumes "\<bar>(X p1 - X p0) * (X p1 - X p0) + (Y p1 - Y p0) * (Y p1 - Y p0)\<bar> < Fin 0.00000001"
  shows "reflect points p0 p1 = SameObject"
  using assms by (simp add: reflect_def Let_def)








section \<open>The store: allocation and reflect\<close>

text \<open>
  The store holds a Point object by the two numbers its properties \<open>x\<close> and \<open>y\<close> read as.
  For the instances the utilities construct these are the constructor's arguments.
\<close>

lemma Point_new_coordinates:
  "Point_get_x (Point_new env (VNumber a) (VNumber b)) = VNumber a
   \<and> Point_get_y (Point_new env (VNumber a) (VNumber b)) = VNumber b"
  by (simp add: Point_new_def Point_length_def Point_get_x_def Point_get_y_def Let_def)

lemma point_at_append:
  "r < length h \<Longrightarrow> point_at (h @ h2) r = point_at h r"
  by (simp add: point_at_def nth_append)

lemma those_map_Some:
  "(\<And>x. x \<in> set xs \<Longrightarrow> f x = Some (g x)) \<Longrightarrow> those (map f xs) = Some (map g xs)"
  by (induction xs) simp_all

lemma push_points_eq:
  "arr < length h \<Longrightarrow> h ! arr = ArrayObj rs \<Longrightarrow>
   push_points h arr qs
     = h[arr := ArrayObj (rs @ [length h ..< length h + length qs])] @ map PointObj qs"
proof (induction qs arbitrary: h rs)
  case Nil
  then show ?case by (simp add: list_update_same_conv[THEN iffD2])
next
  case (Cons q qs)
  define h1 where "h1 = (h @ [PointObj q])[arr := ArrayObj (rs @ [length h])]"
  have a: "array_at (h @ [PointObj q]) arr = Some rs"
    using Cons.prems by (simp add: array_at_def nth_append)
  have step: "push_points h arr (q # qs) = push_points h1 arr qs"
    using a by (simp add: new_Point_def push_def h1_def)
  have l: "arr < length h1" "length h1 = length h + 1" "h1 ! arr = ArrayObj (rs @ [length h])"
    using Cons.prems by (simp_all add: h1_def)
  have "push_points h1 arr qs
      = h1[arr := ArrayObj ((rs @ [length h]) @ [length h1 ..< length h1 + length qs])]
        @ map PointObj qs"
    using Cons.IH[OF l(1) l(3)] .
  also have "h1[arr := ArrayObj ((rs @ [length h]) @ [length h1 ..< length h1 + length qs])]
      = h[arr := ArrayObj (rs @ [length h ..< length h + length (q # qs)])] @ [PointObj q]"
  proof -
    have u: "rs @ [length h ..< length h + length (q # qs)]
        = (rs @ [length h]) @ [length h1 ..< length h1 + length qs]"
      by (simp add: l(2) upt_conv_Cons del: upt_Suc)
    show ?thesis
      unfolding u using Cons.prems by (simp add: h1_def list_update_append1 del: upt_Suc)
  qed
  finally show ?case using step by simp
qed

lemma invoke_Reflect_new:
  assumes "cloud_at h rs = Some points" "point_at h r0 = Some p0" "point_at h r1 = Some p1"
      and "reflect points p0 p1 = NewObject qs"
  shows "invoke h (Reflect rs r0 r1)
     = Some (h @ ArrayObj [length h + 1 ..< length h + 1 + length qs] # map PointObj qs,
             CloudRef (length h))"
proof -
  have "push_points (h @ [ArrayObj []]) (length h) qs
      = (h @ [ArrayObj []])[length h := ArrayObj ([] @ [length (h @ [ArrayObj []]) ..<
            length (h @ [ArrayObj []]) + length qs])] @ map PointObj qs"
    by (rule push_points_eq) simp_all
  then have "push_points (h @ [ArrayObj []]) (length h) qs
      = h @ ArrayObj [length h + 1 ..< length h + 1 + length qs] # map PointObj qs"
    by simp
  then show ?thesis using assms by (simp add: new_Array_def)
qed

lemma invoke_Reflect_same:
  assumes "cloud_at h rs = Some points" "point_at h r0 = Some p0" "point_at h r1 = Some p1"
      and "reflect points p0 p1 = SameObject"
  shows "invoke h (Reflect rs r0 r1) = Some (h, CloudRef rs)"
  using assms by simp

lemma cloud_at_new:
  "cloud_at (h @ ArrayObj [length h + 1 ..< length h + 1 + length qs] # map PointObj qs) (length h)
     = Some qs"
proof -
  let ?h = "h @ ArrayObj [length h + 1 ..< length h + 1 + length qs] # map PointObj qs"
  have a: "array_at ?h (length h) = Some [length h + 1 ..< length h + 1 + length qs]"
    by (simp add: array_at_def)
  have p: "point_at ?h x = Some (qs ! (x - (length h + 1)))"
    if "x \<in> set [length h + 1 ..< length h + 1 + length qs]" for x
    using that by (auto simp add: point_at_def nth_append nth_Cons')
  have "those (map (point_at ?h) [length h + 1 ..< length h + 1 + length qs])
      = Some (map (\<lambda>x. qs ! (x - (length h + 1))) [length h + 1 ..< length h + 1 + length qs])"
    using p by (rule those_map_Some)
  moreover have "map (\<lambda>x. qs ! (x - (length h + 1))) [length h + 1 ..< length h + 1 + length qs] = qs"
    by (rule nth_equalityI) (simp_all del: upt_Suc)
  ultimately show ?thesis using a by (simp add: cloud_at_def)
qed


text \<open>
  C3. With \<open>d\<close> the squared length of \<open>p1 - p0\<close>: when \<open>d < 1e-8\<close>, \<open>reflect\<close> returns the
  reference it was given for the cloud and the store is as it was; when \<open>d \<ge> 1e-8\<close> it
  returns a reference to a new array, of new Point objects, as long as the cloud, whose
  element \<open>i\<close> is \<open>(a*u + b*v + p0.x, b*u - a*v + p0.y)\<close> for
  \<open>(u, v) = (points[i].x - p0.x, points[i].y - p0.y)\<close>, \<open>a = (dx^2 - dy^2)/d\<close> and
  \<open>b = 2*dx*dy/d\<close>, and every object of the store before the call is unchanged.
\<close>

theorem reflect_same_object_or_new_cloud:
  assumes cl: "cloud_at h rs = Some points"
      and p0: "point_at h r0 = Some \<lparr>X = Fin x0, Y = Fin y0\<rparr>"
      and p1: "point_at h r1 = Some \<lparr>X = Fin x1, Y = Fin y1\<rparr>"
  shows "(let dx = x1 - x0; dy = y1 - y0; d = dx\<^sup>2 + dy\<^sup>2;
              a = (dx\<^sup>2 - dy\<^sup>2) / d; b = 2 * dx * dy / d
          in (d < 0.00000001 \<longrightarrow> invoke h (Reflect rs r0 r1) = Some (h, CloudRef rs))
           \<and> (0.00000001 \<le> d \<longrightarrow>
                (\<exists>h' r es qs.
                    invoke h (Reflect rs r0 r1) = Some (h', CloudRef r)
                  \<and> length h \<le> r \<and> (\<forall>k<length h. h' ! k = h ! k)
                  \<and> array_at h' r = Some es \<and> (\<forall>e \<in> set es. length h \<le> e)
                  \<and> cloud_at h' r = Some qs \<and> length qs = length points
                  \<and> (\<forall>i<length points.
                        qs ! i = \<lparr>X = Fin a * (X (points ! i) - Fin x0)
                                       + Fin b * (Y (points ! i) - Fin y0) + Fin x0,
                                   Y = Fin b * (X (points ! i) - Fin x0)
                                       - Fin a * (Y (points ! i) - Fin y0) + Fin y0\<rparr>))))"
proof -
  define dx dy d where "dx = x1 - x0" and "dy = y1 - y0" and "d = dx\<^sup>2 + dy\<^sup>2"
  define a b where "a = (dx\<^sup>2 - dy\<^sup>2) / d" and "b = 2 * dx * dy / d"
  let ?p0 = "\<lparr>X = Fin x0, Y = Fin y0\<rparr>" and ?p1 = "\<lparr>X = Fin x1, Y = Fin y1\<rparr>"
  have dn: "(X ?p1 - X ?p0) * (X ?p1 - X ?p0) + (Y ?p1 - Y ?p0) * (Y ?p1 - Y ?p0) = Fin d"
    by (simp add: d_def dx_def dy_def power2_eq_square)
  have d0: "0 \<le> d" by (simp add: d_def)
  have same: "invoke h (Reflect rs r0 r1) = Some (h, CloudRef rs)" if "d < 0.00000001"
  proof -
    have "\<bar>(X ?p1 - X ?p0) * (X ?p1 - X ?p0) + (Y ?p1 - Y ?p0) * (Y ?p1 - Y ?p0)\<bar> < Fin 0.00000001"
      unfolding dn using that d0 by simp
    then have "reflect points ?p0 ?p1 = SameObject" by (rule reflect_SameObject)
    then show ?thesis using cl p0 p1 by simp
  qed
  have new: "\<exists>h' r es qs.
                    invoke h (Reflect rs r0 r1) = Some (h', CloudRef r)
                  \<and> length h \<le> r \<and> (\<forall>k<length h. h' ! k = h ! k)
                  \<and> array_at h' r = Some es \<and> (\<forall>e \<in> set es. length h \<le> e)
                  \<and> cloud_at h' r = Some qs \<and> length qs = length points
                  \<and> (\<forall>i<length points.
                        qs ! i = \<lparr>X = Fin a * (X (points ! i) - Fin x0)
                                       + Fin b * (Y (points ! i) - Fin y0) + Fin x0,
                                   Y = Fin b * (X (points ! i) - Fin x0)
                                       - Fin a * (Y (points ! i) - Fin y0) + Fin y0\<rparr>)"
    if ge: "0.00000001 \<le> d"
  proof -
    have dne: "d \<noteq> 0" using ge by auto
    have nl: "\<not> \<bar>(X ?p1 - X ?p0) * (X ?p1 - X ?p0) + (Y ?p1 - Y ?p0) * (Y ?p1 - Y ?p0)\<bar>
                < Fin 0.00000001"
      unfolding dn using ge by simp
    have an: "((X ?p1 - X ?p0) * (X ?p1 - X ?p0) - (Y ?p1 - Y ?p0) * (Y ?p1 - Y ?p0))
           / ((X ?p1 - X ?p0) * (X ?p1 - X ?p0) + (Y ?p1 - Y ?p0) * (Y ?p1 - Y ?p0)) = Fin a"
      unfolding dn using dne by (simp add: a_def dx_def dy_def power2_eq_square)
    have bn: "Fin 2 * (X ?p1 - X ?p0) * (Y ?p1 - Y ?p0)
           / ((X ?p1 - X ?p0) * (X ?p1 - X ?p0) + (Y ?p1 - Y ?p0) * (Y ?p1 - Y ?p0)) = Fin b"
      unfolding dn using dne by (simp add: b_def dx_def dy_def)
    define qs where "qs = map (reflected (Fin x0) (Fin y0) (Fin a) (Fin b)) points"
    have r: "reflect points ?p0 ?p1 = NewObject qs"
      using reflect_NewObject[OF nl, of points, unfolded an bn] by (simp add: qs_def)
    define es where "es = [length h + 1 ..< length h + 1 + length qs]"
    define h' where "h' = h @ ArrayObj es # map PointObj qs"
    have i: "invoke h (Reflect rs r0 r1) = Some (h', CloudRef (length h))"
      unfolding h'_def es_def by (rule invoke_Reflect_new[OF cl p0 p1 r])
    have "\<forall>k<length h. h' ! k = h ! k" by (simp add: h'_def nth_append)
    moreover have "array_at h' (length h) = Some es" by (simp add: h'_def array_at_def)
    moreover have "\<forall>e \<in> set es. length h \<le> e" by (auto simp: es_def)
    moreover have "cloud_at h' (length h) = Some qs"
      unfolding h'_def es_def by (rule cloud_at_new)
    moreover have "length qs = length points" by (simp add: qs_def)
    moreover have "\<forall>i<length points.
                        qs ! i = \<lparr>X = Fin a * (X (points ! i) - Fin x0)
                                       + Fin b * (Y (points ! i) - Fin y0) + Fin x0,
                                   Y = Fin b * (X (points ! i) - Fin x0)
                                       - Fin a * (Y (points ! i) - Fin y0) + Fin y0\<rparr>"
      by (simp add: qs_def reflected_def)
    ultimately show ?thesis using i by blast
  qed
  show ?thesis
    unfolding Let_def using same new
    unfolding a_def b_def d_def dx_def dy_def by blast
qed

theorem reflect_same_object_or_new_cloud_witness:
  "cloud_at [PointObj \<lparr>X = Fin 20, Y = Fin 10\<rparr>, ArrayObj [0], PointObj \<lparr>X = Fin 50, Y = Fin 325\<rparr>,
             PointObj \<lparr>X = Fin 500, Y = Fin 100\<rparr>] 1 = Some [\<lparr>X = Fin 20, Y = Fin 10\<rparr>]
   \<and> invoke [PointObj \<lparr>X = Fin 20, Y = Fin 10\<rparr>, ArrayObj [0], PointObj \<lparr>X = Fin 50, Y = Fin 325\<rparr>,
             PointObj \<lparr>X = Fin 500, Y = Fin 100\<rparr>] (Reflect 1 2 2)
       = Some ([PointObj \<lparr>X = Fin 20, Y = Fin 10\<rparr>, ArrayObj [0], PointObj \<lparr>X = Fin 50, Y = Fin 325\<rparr>,
             PointObj \<lparr>X = Fin 500, Y = Fin 100\<rparr>], CloudRef 1)
   \<and> (\<exists>h' r. invoke [PointObj \<lparr>X = Fin 20, Y = Fin 10\<rparr>, ArrayObj [0],
                       PointObj \<lparr>X = Fin 50, Y = Fin 325\<rparr>, PointObj \<lparr>X = Fin 500, Y = Fin 100\<rparr>]
                 (Reflect 1 2 3) = Some (h', CloudRef r)
          \<and> 4 \<le> r \<and> h' ! 0 = PointObj \<lparr>X = Fin 20, Y = Fin 10\<rparr> \<and> h' ! 1 = ArrayObj [0]
          \<and> cloud_at h' r = Some [\<lparr>X = Fin 284, Y = Fin 538\<rparr>])"
proof -
  let ?h = "[PointObj \<lparr>X = Fin 20, Y = Fin 10\<rparr>, ArrayObj [0], PointObj \<lparr>X = Fin 50, Y = Fin 325\<rparr>,
             PointObj \<lparr>X = Fin 500, Y = Fin 100\<rparr>]"
  have cl: "cloud_at ?h 1 = Some [\<lparr>X = Fin 20, Y = Fin 10\<rparr>]"
    by (simp add: cloud_at_def array_at_def point_at_def)
  have p2: "point_at ?h 2 = Some \<lparr>X = Fin 50, Y = Fin 325\<rparr>"
    by (simp add: point_at_def)
  have p3: "point_at ?h 3 = Some \<lparr>X = Fin 500, Y = Fin 100\<rparr>"
    by (simp add: point_at_def)
  have a: "invoke ?h (Reflect 1 2 2) = Some (?h, CloudRef 1)"
    using reflect_same_object_or_new_cloud [OF cl p2 p2] by (simp add: Let_def)
  obtain h' r es qs where b: "invoke ?h (Reflect 1 2 3) = Some (h', CloudRef r)"
      "length ?h \<le> r" "\<forall>k<length ?h. h' ! k = ?h ! k" "cloud_at h' r = Some qs"
      "length qs = 1" "qs ! 0 = \<lparr>X = Fin 284, Y = Fin 538\<rparr>"
    using reflect_same_object_or_new_cloud [OF cl p2 p3] by (auto simp add: Let_def)
  from b(5,6) have "qs = [\<lparr>X = Fin 284, Y = Fin 538\<rparr>]"
    by (cases qs) auto
  then show ?thesis using cl a b by auto
qed

section \<open>No operation writes to an argument\<close>

lemma new_Point_frame:
  "new_Point h p = (h1, q) \<Longrightarrow>
     length h \<le> length h1 \<and> (\<forall>r<length h. h1 ! r = h ! r) \<and> length h \<le> q \<and> q < length h1
     \<and> point_at h1 q = Some p"
  by (auto simp add: new_Point_def point_at_def nth_append)

text \<open>
  C8. Every call of the typed interface returns; every object that was in the store before
  the call (each argument point, each cloud and each of its elements) is the same after it;
  and a result that is a reference is to an object allocated by the call, a Point or an
  array of Points allocated by the call, unless it is the cloud that \<open>reflect\<close> was given on
  a degenerate line, where the store is as it was. Every other result is a number, a
  boolean, or the TypeError that \<open>closestPointToLine\<close> throws.
\<close>

theorem utilities_do_not_mutate:
  assumes wt: "well_typed h c"
  shows "\<exists>h' out. invoke h c = Some (h', out)
           \<and> length h \<le> length h' \<and> (\<forall>r<length h. h' ! r = h ! r)
           \<and> (case out of
                 PointRef q \<Rightarrow> length h \<le> q \<and> q < length h' \<and> point_at h' q \<noteq> None
               | CloudRef q \<Rightarrow>
                   (length h \<le> q \<and> (\<exists>es. array_at h' q = Some es \<and> (\<forall>e \<in> set es. length h \<le> e))
                      \<and> cloud_at h' q \<noteq> None)
                   \<or> (h' = h \<and> (\<exists>rs r0 r1 points p0 p1.
                          c = Reflect rs r0 r1 \<and> q = rs \<and> cloud_at h rs = Some points
                          \<and> point_at h r0 = Some p0 \<and> point_at h r1 = Some p1
                          \<and> reflect points p0 p1 = SameObject))
               | Throws e \<Rightarrow> (\<exists>rs r0 r1. c = ClosestPointToLine rs r0 r1)
               | _ \<Rightarrow> True)"
proof (cases c)
  case (L2Norm a0 a1)
  then show ?thesis using wt by (cases a0; cases a1) auto
next
  case (Project r0 r1 d)
  then obtain p0 p1 where "point_at h r0 = Some p0" "point_at h r1 = Some p1"
    using wt by auto
  then have "invoke h c = Some (h @ [PointObj (project p0 p1 d)], PointRef (length h))"
    by (simp add: Project new_Point_def)
  moreover have "point_at (h @ [PointObj q]) (length h) = Some q" for q
    by (simp add: point_at_def)
  ultimately show ?thesis by (simp add: nth_append)
next
  case (PointSegmentProjection r0 r1 r)
  then obtain p0 p1 p where "point_at h r0 = Some p0" "point_at h r1 = Some p1"
      "point_at h r = Some p"
    using wt by auto
  then have "invoke h c
      = Some (h @ [PointObj (pointSegmentProjection p0 p1 p)], PointRef (length h))"
    by (simp add: PointSegmentProjection new_Point_def)
  moreover have "point_at (h @ [PointObj q]) (length h) = Some q" for q
    by (simp add: point_at_def)
  ultimately show ?thesis by (simp add: nth_append)
next
  case (ClosestPointToLine rs r0 r1)
  then show ?thesis using wt by (auto split: sum.splits)
next
  case (Reflect rs r0 r1)
  then obtain points p0 p1 where l: "cloud_at h rs = Some points" "point_at h r0 = Some p0"
      "point_at h r1 = Some p1"
    using wt by auto
  show ?thesis
  proof (cases "reflect points p0 p1")
    case SameObject
    then show ?thesis using l Reflect by simp
  next
    case (NewObject qs)
    define es where "es = [length h + 1 ..< length h + 1 + length qs]"
    define h' where "h' = h @ ArrayObj es # map PointObj qs"
    have i: "invoke h c = Some (h', CloudRef (length h))"
      unfolding h'_def es_def Reflect by (rule invoke_Reflect_new[OF l NewObject])
    have "\<forall>k<length h. h' ! k = h ! k" by (simp add: h'_def nth_append)
    moreover have "array_at h' (length h) = Some es" by (simp add: h'_def array_at_def)
    moreover have "\<forall>e \<in> set es. length h \<le> e" by (auto simp: es_def)
    moreover have "cloud_at h' (length h) = Some qs"
      unfolding h'_def es_def by (rule cloud_at_new)
    moreover have "length h \<le> length h'" by (simp add: h'_def)
    ultimately show ?thesis using i by simp
  qed
qed (use wt in auto)


theorem utilities_do_not_mutate_witness:
  "well_typed [PointObj \<lparr>X = Fin 20, Y = Fin 10\<rparr>, ArrayObj [0], PointObj \<lparr>X = Fin 50, Y = Fin 325\<rparr>,
             PointObj \<lparr>X = Fin 500, Y = Fin 100\<rparr>] (Reflect 1 2 3)
   \<and> (\<exists>h' out. invoke [PointObj \<lparr>X = Fin 20, Y = Fin 10\<rparr>, ArrayObj [0],
                       PointObj \<lparr>X = Fin 50, Y = Fin 325\<rparr>, PointObj \<lparr>X = Fin 500, Y = Fin 100\<rparr>]
                 (Reflect 1 2 3) = Some (h', out)
          \<and> h' ! 0 = PointObj \<lparr>X = Fin 20, Y = Fin 10\<rparr> \<and> h' ! 1 = ArrayObj [0]
          \<and> h' ! 2 = PointObj \<lparr>X = Fin 50, Y = Fin 325\<rparr> \<and> h' ! 3 = PointObj \<lparr>X = Fin 500, Y = Fin 100\<rparr>)"
proof -
  let ?h = "[PointObj \<lparr>X = Fin 20, Y = Fin 10\<rparr>, ArrayObj [0], PointObj \<lparr>X = Fin 50, Y = Fin 325\<rparr>,
             PointObj \<lparr>X = Fin 500, Y = Fin 100\<rparr>]"
  have wt: "well_typed ?h (Reflect 1 2 3)"
    by (simp add: cloud_at_def array_at_def point_at_def)
  obtain h' out where b: "invoke ?h (Reflect 1 2 3) = Some (h', out)"
      "\<forall>r<length ?h. h' ! r = ?h ! r"
    using utilities_do_not_mutate [OF wt] by blast
  have "h' ! 0 = ?h ! 0" "h' ! 1 = ?h ! 1" "h' ! 2 = ?h ! 2" "h' ! 3 = ?h ! 3"
    using b(2) by simp_all
  then show ?thesis using wt b(1) by simp
qed

section \<open>project\<close>

text \<open>
  \<open>project\<close> calls \<open>angle(p0, p1)\<close> without its third parameter, which defaults to true: the
  angle it passes to \<open>Math.cos\<close> and \<open>Math.sin\<close> is in degrees. The bounds on \<open>\<pi>\<close> below show
  that 90 is not an odd multiple of \<open>\<pi>/2\<close>.
\<close>

lemma cos_taylor8:
  fixes x :: real
  shows "\<bar>cos x - (1 - x^2 / 2 + x^4 / 24 - x^6 / 720)\<bar> \<le> x^8 / 40320"
proof -
  obtain t where t: "cos x = (\<Sum>m<8. cos_coeff m * x ^ m) + (cos (t + 1/2 * real 8 * pi) / fact 8) * x ^ 8"
    using Maclaurin_cos_expansion[of x 8] by blast
  have e: "(\<Sum>m<8. f m) = f 0 + f 1 + f 2 + f 3 + f 4 + f 5 + f 6 + f (7::nat)" for f :: "nat \<Rightarrow> real"
    by (simp add: eval_nat_numeral)
  have s: "(\<Sum>m<8. cos_coeff m * x ^ m) = 1 - x^2 / 2 + x^4 / 24 - x^6 / 720"
    unfolding e by (simp add: cos_coeff_def fact_numeral)
  have f: "fact 8 = (40320::real)" by (simp add: eval_nat_numeral)
  have "\<bar>cos (t + 1/2 * real 8 * pi) * (x ^ 8 / 40320)\<bar> \<le> 1 * (x ^ 8 / 40320)"
    unfolding abs_mult by (rule mult_mono) (simp_all)
  then show ?thesis unfolding t s f by simp
qed

lemma cos_1555_pos: "0 < cos (1.555::real)"
proof -
  have "\<bar>cos (1.555::real) - (1 - 1.555^2 / 2 + 1.555^4 / 24 - 1.555^6 / 720)\<bar> \<le> 1.555^8 / 40320"
    by (rule cos_taylor8)
  then have "(1 - 1.555^2 / 2 + 1.555^4 / 24 - 1.555^6 / 720) - 1.555^8 / 40320 \<le> cos (1.555::real)"
    by linarith
  moreover have "(0::real) < (1 - 1.555^2 / 2 + 1.555^4 / 24 - 1.555^6 / 720) - 1.555^8 / 40320"
    by (simp add: power_divide field_simps)
  ultimately show ?thesis by linarith
qed

lemma cos_1575_neg: "cos (1.575::real) < 0"
proof -
  have "\<bar>cos (1.575::real) - (1 - 1.575^2 / 2 + 1.575^4 / 24 - 1.575^6 / 720)\<bar> \<le> 1.575^8 / 40320"
    by (rule cos_taylor8)
  then have "cos (1.575::real) \<le> (1 - 1.575^2 / 2 + 1.575^4 / 24 - 1.575^6 / 720) + 1.575^8 / 40320"
    by linarith
  moreover have "(1 - 1.575^2 / 2 + 1.575^4 / 24 - 1.575^6 / 720) + 1.575^8 / 40320 < (0::real)"
    by (simp add: power_divide field_simps)
  ultimately show ?thesis by linarith
qed

lemma pi_bounds: "3.11 < pi" "pi < 3.15"
proof -
  show "3.11 < pi"
  proof (rule ccontr)
    assume "\<not> 3.11 < pi"
    then have "pi / 2 \<le> 1.555" by simp
    moreover have "(1.555::real) \<le> pi" using pi_ge_two by simp
    ultimately have "cos 1.555 \<le> cos (pi / 2)"
      by (intro cos_monotone_0_pi_le) simp_all
    then show False using cos_1555_pos by simp
  qed
  show "pi < 3.15"
  proof (rule ccontr)
    assume "\<not> pi < 3.15"
    then have "1.575 \<le> pi / 2" by simp
    then have "0 \<le> cos (1.575::real)" by (intro cos_ge_zero) simp_all
    then show False using cos_1575_neg by simp
  qed
qed

lemma cos_90_nonzero: "cos (90::real) \<noteq> 0"
proof
  assume "cos (90::real) = 0"
  then obtain i :: int where i: "(90::real) = of_int i * (pi / 2)"
    by (auto simp: cos_zero_iff_int)
  then have e: "pi * of_int i = 180" by (simp add: mult.commute)
  show False
  proof (cases "i \<le> 57")
    case True
    then have "(of_int i :: real) \<le> 57" by simp
    then have "pi * of_int i \<le> pi * 57" by (intro mult_left_mono) simp_all
    then show False using e pi_bounds by simp
  next
    case False
    then have "58 \<le> i" by simp
    then have "(58::real) \<le> of_int i" by simp
    then have "pi * 58 \<le> pi * of_int i" by (intro mult_left_mono) simp_all
    then show False using e pi_bounds by simp
  qed
qed

text \<open>
  With a single zero, as in this model, \<open>atan2 0 0 = 0\<close> and a point projected towards itself
  moves along the x axis. (On doubles \<open>Math.atan2(-0, -0)\<close> is \<open>-\<pi>\<close>; the difference of two
  equal finite numbers is \<open>+0\<close>.)
\<close>

lemma project_same_point:
  "project \<lparr>X = Fin a, Y = Fin b\<rparr> \<lparr>X = Fin a, Y = Fin b\<rparr> (Fin d) = \<lparr>X = Fin (a + d), Y = Fin b\<rparr>"
  by (simp add: project_def angle_def atan2_def Math_PI_def Let_def)

text \<open>
  C2. \<open>project(p0, p1, d)\<close> is to be \<open>p0 + d*(cos \<theta>, sin \<theta>)\<close> for the angle \<open>\<theta>\<close> of
  \<open>p1 - p0\<close> in radians. For \<open>p0 = (0,0)\<close>, \<open>p1 = (0,1)\<close> and \<open>d = 1\<close>, where \<open>\<theta> = \<pi>/2\<close> and
  that point is \<open>(0, 1)\<close>, the code returns \<open>(cos 90, sin 90)\<close>, which is another point.
\<close>

theorem project_uses_degrees:
  "project \<lparr>X = Fin 0, Y = Fin 0\<rparr> \<lparr>X = Fin 0, Y = Fin 1\<rparr> (Fin 1)
     = \<lparr>X = Fin (cos 90), Y = Fin (sin 90)\<rparr>
   \<and> project \<lparr>X = Fin 0, Y = Fin 0\<rparr> \<lparr>X = Fin 0, Y = Fin 1\<rparr> (Fin 1)
     \<noteq> \<lparr>X = Fin (0 + 1 * cos (pi / 2)), Y = Fin (0 + 1 * sin (pi / 2))\<rparr>"
proof -
  have e: "project \<lparr>X = Fin 0, Y = Fin 0\<rparr> \<lparr>X = Fin 0, Y = Fin 1\<rparr> (Fin 1)
     = \<lparr>X = Fin (cos 90), Y = Fin (sin 90)\<rparr>"
    by (simp add: project_def angle_def atan2_def Math_PI_def Let_def)
  show ?thesis
    unfolding e using cos_90_nonzero by simp
qed

end
